theory Spec2Isabelle
  imports Complex_Main "HOL-Library.Word"
begin

section \<open>Python values used by the document pipeline\<close>

text \<open>
  A Python \<open>str\<close> is a sequence of Unicode code points and \<open>len\<close> counts code points,
  so a \<open>str\<close> is a list of naturals. A \<open>bytes\<close> object is a list of 8-bit words.
  \<open>ustr\<close> writes an ASCII literal as a \<open>str\<close>.
\<close>

type_synonym pystr = "nat list"
type_synonym pybytes = "8 word list"

definition ustr :: "string \<Rightarrow> pystr" where
  "ustr s = map of_char s"

text \<open>
  Exceptions are values. Every exception of the pipeline is a subclass of Python's
  \<open>Exception\<close>: the \<open>ValueError\<close>s raised by \<open>process_file\<close>, the
  \<open>UnicodeDecodeError\<close> of \<open>bytes.decode\<close>, the \<open>IndexError\<close> of a list read out of
  range, and whatever an external library (OpenCV, Tesseract, PyMuPDF, python-docx,
  LangChain, Chroma) raises, kept as \<open>LibError\<close> with its message.
\<close>

datatype exn =
    ValueError pystr
  | UnicodeDecodeError pystr
  | IndexError pystr
  | LibError pystr

fun str_of_exn :: "exn \<Rightarrow> pystr" where
  "str_of_exn (ValueError m) = m"
| "str_of_exn (UnicodeDecodeError m) = m"
| "str_of_exn (IndexError m) = m"
| "str_of_exn (LibError m) = m"

text \<open>Sequencing of fallible steps: the first exception ends the block.\<close>

definition bind_exn :: "exn + 'a \<Rightarrow> ('a \<Rightarrow> exn + 'b) \<Rightarrow> exn + 'b" where
  "bind_exn m f = (case m of Inl e \<Rightarrow> Inl e | Inr x \<Rightarrow> f x)"

subsection \<open>\<open>str.strip\<close>, \<open>str.lower\<close>, \<open>str.split\<close>, \<open>str.join\<close>\<close>

text \<open>
  \<open>str.isspace\<close> on one code point: the Unicode white-space characters together with
  the four information separators U+001C..U+001F.
\<close>

definition py_isspace :: "nat \<Rightarrow> bool" where
  "py_isspace c \<longleftrightarrow>
     (9 \<le> c \<and> c \<le> 13) \<or> (28 \<le> c \<and> c \<le> 32) \<or> c = 133 \<or> c = 160 \<or> c = 5760 \<or>
     (8192 \<le> c \<and> c \<le> 8202) \<or> c = 8232 \<or> c = 8233 \<or> c = 8239 \<or> c = 8287 \<or> c = 12288"

definition strip :: "pystr \<Rightarrow> pystr" where
  "strip s = rev (dropWhile py_isspace (rev (dropWhile py_isspace s)))"

text \<open>
  \<open>str.lower\<close> on the ASCII letters. Python lowers further cased code points as well;
  none of them is mapped to a letter of the six supported extensions, so the lookup in
  \<open>supported_formats\<close> is the same.
\<close>

definition lower_cp :: "nat \<Rightarrow> nat" where
  "lower_cp c = (if 65 \<le> c \<and> c \<le> 90 then c + 32 else c)"

definition lower :: "pystr \<Rightarrow> pystr" where
  "lower s = map lower_cp s"

text \<open>\<open>s.split(sep)\<close> for a one-character separator: never empty.\<close>

fun split_on :: "nat \<Rightarrow> pystr \<Rightarrow> pystr list" where
  "split_on sep [] = [[]]"
| "split_on sep (c # cs) =
     (if c = sep then [] # split_on sep cs
      else (case split_on sep cs of
              [] \<Rightarrow> [[c]]
            | p # ps \<Rightarrow> (c # p) # ps))"

text \<open>\<open>sep.join(parts)\<close>.\<close>

fun join :: "pystr \<Rightarrow> pystr list \<Rightarrow> pystr" where
  "join sep [] = []"
| "join sep [p] = p"
| "join sep (p # q # ps) = p @ sep @ join sep (q # ps)"

subsection \<open>\<open>bytes.decode\<close>\<close>

text \<open>
  \<open>b.decode('latin-1')\<close>: every byte is the code point of the same value.
\<close>

definition decode_latin1 :: "pybytes \<Rightarrow> pystr" where
  "decode_latin1 bs = map unat bs"

text \<open>
  \<open>b.decode('utf-8')\<close> with the default strict error handler: the well-formed byte
  sequences of the Unicode standard (no overlong forms, no surrogates, nothing above
  U+10FFFF); anything else, a truncated sequence included, raises
  \<open>UnicodeDecodeError\<close>.
\<close>

definition is_cont :: "8 word \<Rightarrow> bool" where
  "is_cont b \<longleftrightarrow> 0x80 \<le> unat b \<and> unat b \<le> 0xBF"

definition cont_bits :: "8 word \<Rightarrow> nat" where
  "cont_bits b = unat b - 0x80"

definition utf8_error :: "exn" where
  "utf8_error = UnicodeDecodeError (ustr ''utf-8 codec cannot decode byte'')"

text \<open>The two outcomes of a decode: a string, or \<open>UnicodeDecodeError\<close>.\<close>

definition decode_outcome :: "exn + pystr \<Rightarrow> bool" where
  "decode_outcome r =
     (case r of Inr s \<Rightarrow> True | Inl (UnicodeDecodeError m) \<Rightarrow> True | Inl e \<Rightarrow> False)"

definition cons_cp :: "nat \<Rightarrow> exn + pystr \<Rightarrow> exn + pystr" where
  "cons_cp c r = (case r of Inl e \<Rightarrow> Inl e | Inr s \<Rightarrow> Inr (c # s))"

fun decode_utf8 :: "pybytes \<Rightarrow> exn + pystr" where
  "decode_utf8 [] = Inr []"
| "decode_utf8 (b # bs) =
     (let n = unat b in
      if n < 0x80 then cons_cp n (decode_utf8 bs)
      else if 0xC2 \<le> n \<and> n \<le> 0xDF then
        (case bs of
           c1 # r \<Rightarrow>
             if is_cont c1
             then cons_cp ((n - 0xC0) * 64 + cont_bits c1) (decode_utf8 r)
             else Inl utf8_error
         | _ \<Rightarrow> Inl utf8_error)
      else if 0xE0 \<le> n \<and> n \<le> 0xEF then
        (case bs of
           c1 # c2 # r \<Rightarrow>
             if is_cont c1 \<and> is_cont c2 \<and>
                (n = 0xE0 \<longrightarrow> 0xA0 \<le> unat c1) \<and> (n = 0xED \<longrightarrow> unat c1 \<le> 0x9F)
             then cons_cp ((n - 0xE0) * 4096 + cont_bits c1 * 64 + cont_bits c2)
                    (decode_utf8 r)
             else Inl utf8_error
         | _ \<Rightarrow> Inl utf8_error)
      else if 0xF0 \<le> n \<and> n \<le> 0xF4 then
        (case bs of
           c1 # c2 # c3 # r \<Rightarrow>
             if is_cont c1 \<and> is_cont c2 \<and> is_cont c3 \<and>
                (n = 0xF0 \<longrightarrow> 0x90 \<le> unat c1) \<and> (n = 0xF4 \<longrightarrow> unat c1 \<le> 0x8F)
             then cons_cp ((n - 0xF0) * 262144 + cont_bits c1 * 4096 +
                           cont_bits c2 * 64 + cont_bits c3) (decode_utf8 r)
             else Inl utf8_error
         | _ \<Rightarrow> Inl utf8_error)
      else Inl utf8_error)"

section \<open>The uploaded file\<close>

text \<open>
  An uploaded file is an in-memory binary stream with a name: \<open>read()\<close> returns the
  bytes from the current position to the end and leaves the position at the end,
  \<open>seek(0)\<close> rewinds.
\<close>

record uploaded_file =
  name :: pystr
  file_bytes :: pybytes
  file_pos :: nat

definition read :: "uploaded_file \<Rightarrow> pybytes \<times> uploaded_file" where
  "read f = (drop (file_pos f) (file_bytes f),
             f\<lparr>file_pos := max (file_pos f) (length (file_bytes f))\<rparr>)"

definition seek :: "nat \<Rightarrow> uploaded_file \<Rightarrow> uploaded_file" where
  "seek p f = f\<lparr>file_pos := p\<rparr>"

definition upload :: "pystr \<Rightarrow> pybytes \<Rightarrow> uploaded_file" where
  "upload n bs = \<lparr>name = n, file_bytes = bs, file_pos = 0\<rparr>"

section \<open>\<open>DocumentProcessor._process_txt\<close>\<close>

text \<open>
  The first decode is tried on what \<open>read()\<close> returns; only \<open>UnicodeDecodeError\<close> is
  caught, and the handler rewinds and decodes the whole content as Latin-1. The file is
  returned with its new position.
\<close>

definition process_txt :: "uploaded_file \<Rightarrow> (exn + pystr) \<times> uploaded_file" where
  "process_txt f =
     (let (bs, f1) = read f in
      case decode_utf8 bs of
        Inr txt \<Rightarrow> (Inr txt, f1)
      | Inl (UnicodeDecodeError m) \<Rightarrow>
          (let f2 = seek 0 f1;
               (bs2, f3) = read f2
           in (Inr (decode_latin1 bs2), f3))
      | Inl e \<Rightarrow> (Inl e, f1))"

section \<open>The image libraries\<close>

text \<open>
  OpenCV and NumPy are external: their operations are parameters of the model, each one
  either returning its result or raising. An array is a value of an arbitrary type
  \<open>'a\<close>; the operations do not modify their arguments. The fields are named after the
  calls of the source and take the arguments the source passes.
\<close>

datatype color_code = COLOR_BGR2GRAY | COLOR_RGB2GRAY | COLOR_RGB2BGR

datatype thresh_type = THRESH_BINARY | THRESH_BINARY_OTSU

datatype adaptive_method = ADAPTIVE_THRESH_GAUSSIAN_C

datatype morph_op = MORPH_CLOSE

datatype morph_shape = MORPH_RECT | MORPH_ELLIPSE

datatype interpolation = INTER_CUBIC

datatype border_mode = BORDER_REPLICATE | BORDER_CONSTANT

text \<open>
  A kernel is given by the call that builds it: \<open>np.ones((r, c), np.uint8)\<close>,
  \<open>np.array(rows)\<close> or \<open>cv2.getStructuringElement(shape, (r, c))\<close>.
\<close>

datatype kernel =
    Ones nat nat
  | Matrix "int list list"
  | StructuringElement morph_shape nat nat

text \<open>
  A 2 by 3 affine matrix, as two rows. \<open>cv2.getRotationMatrix2D(center, angle, scale)\<close>
  is the matrix that OpenCV documents: with \<open>a = scale * cos angle\<close> and
  \<open>b = scale * sin angle\<close>, the angle being in degrees, the rows are
  \<open>(a, b, (1 - a) * cx - b * cy)\<close> and \<open>(- b, a, b * cx + (1 - a) * cy)\<close>.
\<close>

type_synonym affine = "(real \<times> real \<times> real) \<times> (real \<times> real \<times> real)"

definition radians :: "real \<Rightarrow> real" where
  "radians deg = deg * pi / 180"

definition getRotationMatrix2D :: "nat \<times> nat \<Rightarrow> real \<Rightarrow> real \<Rightarrow> affine" where
  "getRotationMatrix2D center angle scale =
     (let cx = real (fst center); cy = real (snd center);
          a = scale * cos (radians angle); b = scale * sin (radians angle)
      in ((a, b, (1 - a) * cx - b * cy), (- b, a, b * cx + (1 - a) * cy)))"

text \<open>
  \<open>cv2.warpAffine\<close> without \<open>WARP_INVERSE_MAP\<close> applies the matrix forwards: what the
  source image shows at the point \<open>p\<close>, the result shows at \<open>warp_point M p\<close>, and a
  direction \<open>d\<close> in the source becomes the direction \<open>warp_direction M d\<close>.
\<close>

fun warp_point :: "affine \<Rightarrow> real \<times> real \<Rightarrow> real \<times> real" where
  "warp_point ((m00, m01, m02), (m10, m11, m12)) (x, y) =
     (m00 * x + m01 * y + m02, m10 * x + m11 * y + m12)"

fun warp_direction :: "affine \<Rightarrow> real \<times> real \<Rightarrow> real \<times> real" where
  "warp_direction ((m00, m01, m02), (m10, m11, m12)) (dx, dy) =
     (m00 * dx + m01 * dy, m10 * dx + m11 * dy)"

text \<open>
  The rotation of the pixel plane about the point \<open>c\<close> by \<open>phi\<close> degrees, in the pixel
  coordinates \<open>(x, y)\<close> with \<open>x\<close> to the right and \<open>y\<close> downwards: the direction of
  inclination \<open>t\<close>, that is \<open>(cos t, sin t)\<close>, becomes the direction of inclination
  \<open>t + phi\<close>. This is the frame in which the detected angle of a line is measured: the
  line \<open>x cos theta + y sin theta = rho\<close> has the direction \<open>(sin theta, - cos theta)\<close>,
  of inclination \<open>theta - 90\<close> degrees.
\<close>

definition rotate_about :: "real \<times> real \<Rightarrow> real \<Rightarrow> real \<times> real \<Rightarrow> real \<times> real" where
  "rotate_about c phi p =
     (fst c + cos (radians phi) * (fst p - fst c) - sin (radians phi) * (snd p - snd c),
      snd c + sin (radians phi) * (fst p - fst c) + cos (radians phi) * (snd p - snd c))"

definition direction_of :: "real \<Rightarrow> real \<times> real" where
  "direction_of t = (cos (radians t), sin (radians t))"

definition hough_direction :: "real \<times> real \<Rightarrow> real \<times> real" where
  "hough_direction line = (sin (snd line), - cos (snd line))"

record 'a cv2 =
  np_shape :: "'a \<Rightarrow> nat list"
  cv2_cvtColor :: "'a \<Rightarrow> color_code \<Rightarrow> exn + 'a"
  cv2_medianBlur :: "'a \<Rightarrow> nat \<Rightarrow> exn + 'a"
  cv2_clahe_apply :: "rat \<Rightarrow> nat \<times> nat \<Rightarrow> 'a \<Rightarrow> exn + 'a"
  cv2_threshold :: "'a \<Rightarrow> nat \<Rightarrow> nat \<Rightarrow> thresh_type \<Rightarrow> exn + 'a"
  cv2_adaptiveThreshold ::
    "'a \<Rightarrow> nat \<Rightarrow> adaptive_method \<Rightarrow> thresh_type \<Rightarrow> nat \<Rightarrow> int \<Rightarrow> exn + 'a"
  cv2_morphologyEx :: "'a \<Rightarrow> morph_op \<Rightarrow> kernel \<Rightarrow> exn + 'a"
  cv2_filter2D :: "'a \<Rightarrow> int \<Rightarrow> kernel \<Rightarrow> exn + 'a"
  cv2_resize :: "'a \<Rightarrow> nat \<Rightarrow> nat \<Rightarrow> interpolation \<Rightarrow> exn + 'a"
  cv2_fastNlMeansDenoising :: "'a \<Rightarrow> nat \<Rightarrow> nat \<Rightarrow> nat \<Rightarrow> exn + 'a"
  cv2_bilateralFilter :: "'a \<Rightarrow> nat \<Rightarrow> nat \<Rightarrow> nat \<Rightarrow> exn + 'a"
  cv2_dilate :: "'a \<Rightarrow> kernel \<Rightarrow> exn + 'a"
  cv2_absdiff :: "'a \<Rightarrow> 'a \<Rightarrow> exn + 'a"
  np_rsub :: "nat \<Rightarrow> 'a \<Rightarrow> exn + 'a"
  cv2_normalize :: "'a \<Rightarrow> nat \<Rightarrow> nat \<Rightarrow> exn + 'a"
  cv2_Canny :: "'a \<Rightarrow> nat \<Rightarrow> nat \<Rightarrow> nat \<Rightarrow> exn + 'a"
  cv2_HoughLines :: "'a \<Rightarrow> real \<Rightarrow> real \<Rightarrow> nat \<Rightarrow> exn + (real \<times> real) list option"
  cv2_warpAffine ::
    "'a \<Rightarrow> affine \<Rightarrow> nat \<times> nat \<Rightarrow> interpolation \<Rightarrow> border_mode \<Rightarrow> exn + 'a"

section \<open>\<open>OCRProcessor\<close>: image preprocessing\<close>

text \<open>
  The bodies of the methods of \<open>utils/ocr_processor.py\<close>. A leading underscore of a
  method name is dropped. \<open>clahe_apply clip tiles\<close> is \<open>cv2.createCLAHE\<close> followed by
  \<open>apply\<close>; \<open>cv2.threshold\<close> stands for the second component of its result, the only
  one the source keeps.
\<close>

definition preprocess_default :: "'a cv2 \<Rightarrow> 'a \<Rightarrow> exn + 'a" where
  "preprocess_default cv img =
     bind_exn (cv2_medianBlur cv img 3) (\<lambda>denoised.
     bind_exn (cv2_clahe_apply cv 2 (8, 8) denoised) (\<lambda>enhanced.
     cv2_threshold cv enhanced 0 255 THRESH_BINARY_OTSU))"

text \<open>
  The loop of \<open>_deskew_image\<close> over the detected lines \<open>(rho, theta)\<close>, and
  \<open>np.median\<close>: the middle element of the sorted values, or the mean of the two middle
  ones. The arithmetic of the source is in floating point; here it is on the reals.
\<close>

fun accepted_angles :: "(real \<times> real) list \<Rightarrow> real list" where
  "accepted_angles [] = []"
| "accepted_angles ((rho, theta) # ls) =
     (let angle = theta * 180 / pi - 90 in
      if \<bar>angle\<bar> < 45 then angle # accepted_angles ls else accepted_angles ls)"

definition np_median :: "real list \<Rightarrow> real" where
  "np_median xs =
     (let s = sort xs; n = length s in
      if odd n then s ! (n div 2) else (s ! (n div 2 - 1) + s ! (n div 2)) / 2)"

text \<open>
  What a median is, in the words of statistics: at least half of the values are at most
  \<open>m\<close>, and at least half are at least \<open>m\<close>.
\<close>

definition is_median :: "real \<Rightarrow> real list \<Rightarrow> bool" where
  "is_median m xs \<longleftrightarrow>
     length xs \<le> 2 * length (filter (\<lambda>x. x \<le> m) xs) \<and>
     length xs \<le> 2 * length (filter (\<lambda>x. m \<le> x) xs)"

definition unpack_error :: exn where
  "unpack_error = ValueError (ustr ''wrong number of values to unpack'')"

definition deskew_image :: "'a cv2 \<Rightarrow> 'a \<Rightarrow> exn + 'a" where
  "deskew_image cv img =
     bind_exn (cv2_Canny cv img 50 150 3) (\<lambda>edges.
     bind_exn (cv2_HoughLines cv edges 1 (pi / 180) 100) (\<lambda>lines.
       case lines of
         None \<Rightarrow> Inr img
       | Some ls \<Rightarrow>
           (let angles = accepted_angles ls in
            if angles \<noteq> [] then
              (let avg_angle = np_median angles in
               case np_shape cv img of
                 [h, w] \<Rightarrow>
                   (let center = (w div 2, h div 2);
                        rotation = getRotationMatrix2D center avg_angle 1
                    in cv2_warpAffine cv img rotation (w, h) INTER_CUBIC BORDER_REPLICATE)
               | _ \<Rightarrow> Inl unpack_error)
            else Inr img)))"

definition preprocess_scanned_document :: "'a cv2 \<Rightarrow> 'a \<Rightarrow> exn + 'a" where
  "preprocess_scanned_document cv img =
     bind_exn (deskew_image cv img) (\<lambda>deskewed.
     bind_exn (cv2_morphologyEx cv deskewed MORPH_CLOSE (Ones 1 1)) (\<lambda>cleaned.
     bind_exn (cv2_medianBlur cv cleaned 3) (\<lambda>cleaned2.
     cv2_adaptiveThreshold cv cleaned2 255 ADAPTIVE_THRESH_GAUSSIAN_C THRESH_BINARY 11 2)))"

definition correct_perspective :: "'a cv2 \<Rightarrow> 'a \<Rightarrow> exn + 'a" where
  "correct_perspective cv img = Inr img"

definition remove_shadows :: "'a cv2 \<Rightarrow> 'a \<Rightarrow> exn + 'a" where
  "remove_shadows cv img =
     bind_exn (cv2_dilate cv img (Ones 7 7)) (\<lambda>dilated_img.
     bind_exn (cv2_medianBlur cv dilated_img 21) (\<lambda>bg_img.
     bind_exn (cv2_absdiff cv img bg_img) (\<lambda>d.
     bind_exn (np_rsub cv 255 d) (\<lambda>diff_img.
     cv2_normalize cv diff_img 0 255))))"

definition preprocess_photo_document :: "'a cv2 \<Rightarrow> 'a \<Rightarrow> exn + 'a" where
  "preprocess_photo_document cv img =
     bind_exn (correct_perspective cv img) (\<lambda>corrected.
     bind_exn (remove_shadows cv corrected) (\<lambda>shadow_free.
     bind_exn (cv2_clahe_apply cv 3 (8, 8) shadow_free) (\<lambda>enhanced.
     bind_exn (cv2_filter2D cv enhanced (- 1)
                 (Matrix [[- 1, - 1, - 1], [- 1, 9, - 1], [- 1, - 1, - 1]])) (\<lambda>sharpened.
     cv2_threshold cv sharpened 0 255 THRESH_BINARY_OTSU))))"

definition preprocess_low_quality :: "'a cv2 \<Rightarrow> 'a \<Rightarrow> exn + 'a" where
  "preprocess_low_quality cv img =
     bind_exn (cv2_resize cv img 2 2 INTER_CUBIC) (\<lambda>upscaled.
     bind_exn (cv2_fastNlMeansDenoising cv upscaled 10 7 21) (\<lambda>denoised.
     bind_exn (cv2_filter2D cv denoised (- 1)
                 (Matrix [[0, - 1, 0], [- 1, 5, - 1], [0, - 1, 0]])) (\<lambda>sharpened.
     bind_exn (cv2_clahe_apply cv 4 (8, 8) sharpened) (\<lambda>enhanced.
     cv2_threshold cv enhanced 0 255 THRESH_BINARY_OTSU))))"

definition preprocess_handwritten :: "'a cv2 \<Rightarrow> 'a \<Rightarrow> exn + 'a" where
  "preprocess_handwritten cv img =
     bind_exn (cv2_bilateralFilter cv img 9 75 75) (\<lambda>denoised.
     bind_exn (cv2_morphologyEx cv denoised MORPH_CLOSE
                 (StructuringElement MORPH_ELLIPSE 2 2)) (\<lambda>morphed.
     cv2_adaptiveThreshold cv morphed 255 ADAPTIVE_THRESH_GAUSSIAN_C THRESH_BINARY 15 10))"

text \<open>
  \<open>preprocess_image\<close>: the \<open>try\<close> block, and the method with its handler
  \<open>except Exception: ... return image\<close>. \<open>image.copy()\<close> is the image itself, values
  being immutable here.
\<close>

definition preprocess_image_try :: "'a cv2 \<Rightarrow> 'a \<Rightarrow> pystr \<Rightarrow> exn + 'a" where
  "preprocess_image_try cv img preprocessing_type =
     bind_exn (if length (np_shape cv img) = 3
               then cv2_cvtColor cv img COLOR_BGR2GRAY
               else Inr img) (\<lambda>gray.
       if preprocessing_type = ustr ''scanned_document'' then
         preprocess_scanned_document cv gray
       else if preprocessing_type = ustr ''photo_document'' then
         preprocess_photo_document cv gray
       else if preprocessing_type = ustr ''low_quality'' then
         preprocess_low_quality cv gray
       else if preprocessing_type = ustr ''handwritten'' then
         preprocess_handwritten cv gray
       else preprocess_default cv gray)"

definition preprocess_image :: "'a cv2 \<Rightarrow> 'a \<Rightarrow> pystr \<Rightarrow> 'a" where
  "preprocess_image cv img preprocessing_type =
     (case preprocess_image_try cv img preprocessing_type of
        Inr processed \<Rightarrow> processed
      | Inl e \<Rightarrow> img)"

section \<open>\<open>OCRProcessor.extract_text\<close>\<close>

text \<open>
  PIL and Tesseract are external as well. \<open>'p\<close> is the type of PIL images.
  \<open>image_to_data\<close> with \<open>Output.DICT\<close> returns a dictionary of columns; the two the
  source reads are \<open>conf\<close> and \<open>text\<close>. The confidences are integers (\<open>-1\<close> for a box
  that is not a word, otherwise 0 to 100), so \<open>int(conf)\<close> is \<open>conf\<close>. The default of
  \<open>ocr_configs.get\<close> is the entry \<open>ocr_configs['default']\<close>, written out.
\<close>

record tess_data =
  tess_conf :: "int list"
  tess_text :: "pystr list"

record ('a, 'p) imaging =
  np_array :: "'p \<Rightarrow> exn + 'a"
  Image_fromarray :: "'a \<Rightarrow> exn + 'p"
  Image_open :: "uploaded_file \<Rightarrow> exn + 'p"
  image_to_string :: "'p \<Rightarrow> pystr \<Rightarrow> exn + pystr"
  image_to_data :: "'p \<Rightarrow> pystr \<Rightarrow> pystr \<Rightarrow> exn + tess_data"

definition ocr_configs :: "(pystr \<times> pystr) list" where
  "ocr_configs =
     [(ustr ''default'', ustr ''--oem 3 --psm 6''),
      (ustr ''single_column'', ustr ''--oem 3 --psm 4''),
      (ustr ''single_line'', ustr ''--oem 3 --psm 7''),
      (ustr ''single_word'', ustr ''--oem 3 --psm 8''),
      (ustr ''table'', ustr ''--oem 3 --psm 6''),
      (ustr ''sparse'', ustr ''--oem 3 --psm 11'')]"

definition languages :: "(pystr \<times> pystr) list" where
  "languages =
     [(ustr ''english'', ustr ''eng''),
      (ustr ''spanish'', ustr ''spa''),
      (ustr ''french'', ustr ''fra''),
      (ustr ''german'', ustr ''deu''),
      (ustr ''chinese'', ustr ''chi_sim''),
      (ustr ''arabic'', ustr ''ara'')]"

text \<open>\<open>d.get(k, default)\<close>.\<close>

definition dict_get :: "('k \<times> 'v) list \<Rightarrow> 'k \<Rightarrow> 'v \<Rightarrow> 'v" where
  "dict_get d k dflt = (case map_of d k of Some v \<Rightarrow> v | None \<Rightarrow> dflt)"

text \<open>
  The result dictionary: the keys \<open>text\<close> and \<open>confidence\<close> are always there, the
  others are \<open>None\<close> when the dictionary has no such key.
\<close>

record ocr_result =
  res_text :: pystr
  res_confidence :: rat
  res_word_confidences :: "int list option"
  res_preprocessing_used :: "pystr option"
  res_config_used :: "pystr option"
  res_language_used :: "pystr option"
  res_error :: "pystr option"

definition index_error :: exn where
  "index_error = IndexError (ustr ''list index out of range'')"

text \<open>
  The filtering loop \<open>for i, conf in enumerate(data['conf'])\<close>, from index \<open>i\<close> on. It
  yields the pairs appended to \<open>text_parts\<close> and \<open>confidences\<close>. The threshold is a
  finite float, that is a rational, and Python compares an integer with it exactly.
\<close>

fun filter_by_confidence :: "rat \<Rightarrow> pystr list \<Rightarrow> nat \<Rightarrow> int list \<Rightarrow> exn + (pystr \<times> int) list" where
  "filter_by_confidence thr texts i [] = Inr []"
| "filter_by_confidence thr texts i (c # cs) =
     (if of_int c > thr then
        (if i < length texts then
           (let t = strip (texts ! i) in
            if t \<noteq> [] then
              bind_exn (filter_by_confidence thr texts (Suc i) cs) (\<lambda>kept. Inr ((t, c) # kept))
            else filter_by_confidence thr texts (Suc i) cs)
         else Inl index_error)
      else filter_by_confidence thr texts (Suc i) cs)"

text \<open>\<open>np.mean\<close> of a list of integers, as the exact quotient.\<close>

definition np_mean :: "int list \<Rightarrow> rat" where
  "np_mean xs = of_int (sum_list xs) / of_nat (length xs)"

definition extract_text_try ::
  "'a cv2 \<Rightarrow> ('a, 'p) imaging \<Rightarrow> 'p \<Rightarrow> pystr \<Rightarrow> pystr \<Rightarrow> pystr \<Rightarrow> rat \<Rightarrow> exn + ocr_result" where
  "extract_text_try cv im pil config_type language preprocessing confidence_threshold =
     bind_exn (np_array im pil) (\<lambda>img_array.
     bind_exn (if length (np_shape cv img_array) = 3
               then cv2_cvtColor cv img_array COLOR_RGB2BGR
               else Inr img_array) (\<lambda>img_bgr.
     bind_exn (Image_fromarray im (preprocess_image cv img_bgr preprocessing)) (\<lambda>processed_pil.
     bind_exn (image_to_data im processed_pil
                 (dict_get ocr_configs config_type (ustr ''--oem 3 --psm 6''))
                 (dict_get languages language (ustr ''eng''))) (\<lambda>data.
     bind_exn (filter_by_confidence confidence_threshold (tess_text data) 0 (tess_conf data))
       (\<lambda>kept.
          (let text_parts = map fst kept;
               confidences = map snd kept;
               full_text = join (ustr '' '') text_parts;
               avg_confidence = (if confidences \<noteq> [] then np_mean confidences else 0)
           in Inr \<lparr>res_text = full_text,
                   res_confidence = avg_confidence,
                   res_word_confidences = Some confidences,
                   res_preprocessing_used = Some preprocessing,
                   res_config_used = Some config_type,
                   res_language_used = Some language,
                   res_error = None\<rparr>))))))"

text \<open>The dictionary returned by the handler of \<open>extract_text\<close>.\<close>

definition error_result :: "exn \<Rightarrow> ocr_result" where
  "error_result e =
     \<lparr>res_text = [],
      res_confidence = 0,
      res_word_confidences = None,
      res_preprocessing_used = None,
      res_config_used = None,
      res_language_used = None,
      res_error = Some (str_of_exn e)\<rparr>"

definition extract_text ::
  "'a cv2 \<Rightarrow> ('a, 'p) imaging \<Rightarrow> 'p \<Rightarrow> pystr \<Rightarrow> pystr \<Rightarrow> pystr \<Rightarrow> rat \<Rightarrow> ocr_result" where
  "extract_text cv im pil config_type language preprocessing confidence_threshold =
     (case extract_text_try cv im pil config_type language preprocessing
             confidence_threshold of
        Inr r \<Rightarrow> r
      | Inl e \<Rightarrow> error_result e)"

text \<open>
  The tokens that the loop keeps, as one expression: the pairs of a confidence and a
  text, in layout order, whose confidence is above the threshold and whose text is not
  blank.
\<close>

definition kept_tokens :: "rat \<Rightarrow> tess_data \<Rightarrow> (int \<times> pystr) list" where
  "kept_tokens thr d =
     filter (\<lambda>(c, t). of_int c > thr \<and> strip t \<noteq> []) (zip (tess_conf d) (tess_text d))"

text \<open>
  The specification's reading: a token is discarded when its confidence is at or below
  the threshold, and survives otherwise; the text is the survivors' texts joined with
  single spaces, the confidence their arithmetic mean, or 0 without survivors.
\<close>

definition spec_surviving :: "rat \<Rightarrow> tess_data \<Rightarrow> (int \<times> pystr) list" where
  "spec_surviving thr d =
     filter (\<lambda>(c, t). \<not> of_int c \<le> thr) (zip (tess_conf d) (tess_text d))"

definition spec_text :: "rat \<Rightarrow> tess_data \<Rightarrow> pystr" where
  "spec_text thr d = join (ustr '' '') (map snd (spec_surviving thr d))"

definition spec_confidence :: "rat \<Rightarrow> tess_data \<Rightarrow> rat" where
  "spec_confidence thr d =
     (if spec_surviving thr d = [] then 0
      else of_int (sum_list (map fst (spec_surviving thr d))) /
           of_nat (length (spec_surviving thr d)))"

section \<open>\<open>DocumentProcessor\<close>\<close>

text \<open>
  The remaining external services. \<open>fitz_open\<close> is the copy of the bytes to a temporary
  file followed by \<open>fitz.open\<close>, giving the pages; \<open>page_to_image\<close> is the rendering of
  a page at twice the resolution read back as a PIL image; \<open>docx_Document\<close> is the copy
  to a temporary file followed by \<open>docx.Document\<close>; \<open>split_text\<close> is the construction
  of LangChain's \<open>RecursiveCharacterTextSplitter\<close> with the given chunk size and
  overlap, \<open>len\<close> as length function and the separators of the source, followed by its
  \<open>split_text\<close>; \<open>Chroma_from_documents\<close> is \<open>Chroma.from_documents\<close> followed by
  \<open>persist\<close>.
\<close>

record docx_document =
  paragraphs :: "pystr list"
  tables :: "pystr list list list"

record document =
  page_content :: pystr
  meta_filename :: pystr
  meta_file_type :: pystr
  meta_chunk_id :: nat
  meta_total_chunks :: nat
  meta_ocr_enabled :: bool

record ('p, 'pg, 'vs) services =
  fitz_open :: "pybytes \<Rightarrow> exn + 'pg list"
  page_get_text :: "'pg \<Rightarrow> exn + pystr"
  page_to_image :: "'pg \<Rightarrow> exn + 'p"
  docx_Document :: "pybytes \<Rightarrow> exn + docx_document"
  split_text :: "pystr \<Rightarrow> int \<Rightarrow> int \<Rightarrow> exn + pystr list"
  Chroma_from_documents :: "document list \<Rightarrow> exn + 'vs"

text \<open>\<open>str(n)\<close> for a natural number.\<close>

fun str_of_nat :: "nat \<Rightarrow> pystr" where
  "str_of_nat n = (if n < 10 then [48 + n] else str_of_nat (n div 10) @ [48 + n mod 10])"

definition ocr_config :: pystr where
  "ocr_config = ustr (''--oem 3 --psm 6 -c tessedit_char_whitelist='' @
     ''ABCDEFGHIJKLMNOPQRSTUVWXYZabcdefghijklmnopqrstuvwxyz0123456789 .,!?;:()'')"

text \<open>\<open>DocumentProcessor._preprocess_image\<close>.\<close>

definition dp_preprocess_image :: "'a cv2 \<Rightarrow> 'a \<Rightarrow> exn + 'a" where
  "dp_preprocess_image cv img_array =
     bind_exn (cv2_medianBlur cv img_array 5) (\<lambda>blurred.
     bind_exn (cv2_threshold cv blurred 0 255 THRESH_BINARY_OTSU) (\<lambda>binary.
     cv2_morphologyEx cv binary MORPH_CLOSE (StructuringElement MORPH_RECT 3 3)))"

text \<open>
  \<open>_ocr_image\<close>: the \<open>try\<close> block, and the method with its handler
  \<open>except Exception: ... return ""\<close>.
\<close>

definition ocr_image_try :: "'a cv2 \<Rightarrow> ('a, 'p) imaging \<Rightarrow> 'p \<Rightarrow> exn + pystr" where
  "ocr_image_try cv im pil =
     bind_exn (np_array im pil) (\<lambda>img_array.
     bind_exn (if length (np_shape cv img_array) = 3
               then cv2_cvtColor cv img_array COLOR_RGB2GRAY
               else Inr img_array) (\<lambda>gray.
     bind_exn (dp_preprocess_image cv gray) (\<lambda>processed.
     bind_exn (Image_fromarray im processed) (\<lambda>processed_pil.
     bind_exn (image_to_string im processed_pil ocr_config) (\<lambda>t.
     Inr (strip t))))))"

definition ocr_image :: "'a cv2 \<Rightarrow> ('a, 'p) imaging \<Rightarrow> 'p \<Rightarrow> pystr" where
  "ocr_image cv im pil = (case ocr_image_try cv im pil of Inr t \<Rightarrow> t | Inl e \<Rightarrow> [])"

definition process_image ::
  "'a cv2 \<Rightarrow> ('a, 'p) imaging \<Rightarrow> uploaded_file \<Rightarrow> bool \<Rightarrow> exn + pystr" where
  "process_image cv im uploaded ocr_enabled =
     (if \<not> ocr_enabled then Inr []
      else bind_exn (Image_open im uploaded) (\<lambda>pil. Inr (ocr_image cv im pil)))"

text \<open>The page loop of \<open>_process_pdf\<close>, from page number \<open>page_num\<close> on.\<close>

fun pdf_pages ::
  "'a cv2 \<Rightarrow> ('a, 'p) imaging \<Rightarrow> ('p, 'pg, 'vs) services \<Rightarrow> bool \<Rightarrow> nat \<Rightarrow> 'pg list \<Rightarrow>
   exn + pystr list" where
  "pdf_pages cv im sv ocr_enabled page_num [] = Inr []"
| "pdf_pages cv im sv ocr_enabled page_num (page # rest) =
     bind_exn (page_get_text sv page) (\<lambda>native.
     bind_exn (if strip native = [] \<and> ocr_enabled
               then bind_exn (page_to_image sv page) (\<lambda>pil. Inr (ocr_image cv im pil))
               else Inr native) (\<lambda>t.
     bind_exn (pdf_pages cv im sv ocr_enabled (Suc page_num) rest) (\<lambda>more.
     Inr (if strip t \<noteq> []
          then (ustr ''Page '' @ str_of_nat (page_num + 1) @ [58, 10] @ t) # more
          else more))))"

definition process_pdf ::
  "'a cv2 \<Rightarrow> ('a, 'p) imaging \<Rightarrow> ('p, 'pg, 'vs) services \<Rightarrow> uploaded_file \<Rightarrow> bool \<Rightarrow>
   exn + pystr" where
  "process_pdf cv im sv uploaded ocr_enabled =
     bind_exn (fitz_open sv (fst (read uploaded))) (\<lambda>pages.
     bind_exn (pdf_pages cv im sv ocr_enabled 0 pages) (\<lambda>text_content.
     Inr (join [10, 10] text_content)))"

text \<open>The rows of the tables of \<open>_process_docx\<close>.\<close>

definition docx_row :: "pystr list \<Rightarrow> pystr list" where
  "docx_row cells =
     (let row_text = map strip (filter (\<lambda>c. strip c \<noteq> []) cells) in
      if row_text \<noteq> [] then [join (ustr '' | '') row_text] else [])"

definition process_docx :: "('p, 'pg, 'vs) services \<Rightarrow> uploaded_file \<Rightarrow> exn + pystr" where
  "process_docx sv uploaded =
     bind_exn (docx_Document sv (fst (read uploaded))) (\<lambda>doc.
     Inr (join [10, 10]
            (filter (\<lambda>p. strip p \<noteq> []) (paragraphs doc) @
             concat (map docx_row (concat (tables doc))))))"

text \<open>
  \<open>supported_formats\<close> maps an extension to a method; the four methods are named by a
  datatype.
\<close>

datatype extractor = PDF | TXT | DOCX | IMAGE

definition supported_formats :: "(pystr \<times> extractor) list" where
  "supported_formats =
     [(ustr ''pdf'', PDF), (ustr ''txt'', TXT), (ustr ''docx'', DOCX),
      (ustr ''png'', IMAGE), (ustr ''jpg'', IMAGE), (ustr ''jpeg'', IMAGE)]"

definition run_extractor ::
  "'a cv2 \<Rightarrow> ('a, 'p) imaging \<Rightarrow> ('p, 'pg, 'vs) services \<Rightarrow> extractor \<Rightarrow> uploaded_file \<Rightarrow>
   bool \<Rightarrow> exn + pystr" where
  "run_extractor cv im sv processor uploaded ocr_enabled =
     (case processor of
        PDF \<Rightarrow> process_pdf cv im sv uploaded ocr_enabled
      | TXT \<Rightarrow> fst (process_txt uploaded)
      | DOCX \<Rightarrow> process_docx sv uploaded
      | IMAGE \<Rightarrow> process_image cv im uploaded ocr_enabled)"

definition file_extension :: "uploaded_file \<Rightarrow> pystr" where
  "file_extension uploaded = lower (last (split_on 46 (name uploaded)))"

definition unsupported_format :: "pystr \<Rightarrow> exn" where
  "unsupported_format ext = ValueError (ustr ''Unsupported file format: '' @ ext)"

definition no_content :: exn where
  "no_content = ValueError (ustr ''No text content extracted from file'')"

definition make_documents :: "uploaded_file \<Rightarrow> pystr \<Rightarrow> bool \<Rightarrow> pystr list \<Rightarrow> document list" where
  "make_documents uploaded ext ocr_enabled chunks =
     map (\<lambda>(i, chunk).
            \<lparr>page_content = chunk,
             meta_filename = name uploaded,
             meta_file_type = ext,
             meta_chunk_id = i,
             meta_total_chunks = length chunks,
             meta_ocr_enabled = ocr_enabled\<rparr>)
         (enumerate 0 chunks)"

text \<open>
  \<open>process_file\<close>. Its handler \<open>except Exception as e: ... raise\<close> logs and raises the
  same exception again.
\<close>

definition process_file ::
  "'a cv2 \<Rightarrow> ('a, 'p) imaging \<Rightarrow> ('p, 'pg, 'vs) services \<Rightarrow> uploaded_file \<Rightarrow> bool \<Rightarrow>
   int \<Rightarrow> int \<Rightarrow> exn + document list" where
  "process_file cv im sv uploaded ocr_enabled chunk_size chunk_overlap =
     (let ext = file_extension uploaded in
      case map_of supported_formats ext of
        None \<Rightarrow> Inl (unsupported_format ext)
      | Some processor \<Rightarrow>
          bind_exn (run_extractor cv im sv processor uploaded ocr_enabled) (\<lambda>text_content.
            if strip text_content = [] then Inl no_content
            else
              bind_exn (split_text sv text_content chunk_size chunk_overlap) (\<lambda>chunks.
              Inr (make_documents uploaded ext ocr_enabled chunks))))"

section \<open>\<open>RAGSystemApp.process_documents\<close>\<close>

text \<open>
  The part of Streamlit's session state that the method writes, and the messages it
  shows with \<open>st.error\<close> and \<open>st.success\<close>. The spinner, the progress bar, the status
  text and the rerun after a success are left out.
\<close>

record 'vs session_state =
  vectorstore :: "'vs option"
  processed_docs :: "pystr list"
  st_errors :: "pystr list"
  st_successes :: "pystr list"

text \<open>The loop over the uploaded files, building \<open>all_documents\<close>.\<close>

fun process_each ::
  "'a cv2 \<Rightarrow> ('a, 'p) imaging \<Rightarrow> ('p, 'pg, 'vs) services \<Rightarrow> uploaded_file list \<Rightarrow> bool \<Rightarrow>
   int \<Rightarrow> int \<Rightarrow> exn + document list" where
  "process_each cv im sv [] ocr_enabled chunk_size chunk_overlap = Inr []"
| "process_each cv im sv (file # files) ocr_enabled chunk_size chunk_overlap =
     bind_exn (process_file cv im sv file ocr_enabled chunk_size chunk_overlap) (\<lambda>documents.
     bind_exn (process_each cv im sv files ocr_enabled chunk_size chunk_overlap) (\<lambda>more.
     Inr (documents @ more)))"

text \<open>\<open>VectorStoreManager.create_vectorstore\<close>: its handler raises again.\<close>

definition create_vectorstore :: "('p, 'pg, 'vs) services \<Rightarrow> document list \<Rightarrow> exn + 'vs" where
  "create_vectorstore sv documents = Chroma_from_documents sv documents"

definition success_message :: "nat \<Rightarrow> nat \<Rightarrow> pystr" where
  "success_message n_files n_chunks =
     [128218] @ ustr '' Processed '' @ str_of_nat n_files @ ustr '' documents with '' @
     str_of_nat n_chunks @ ustr '' chunks''"

definition process_documents ::
  "'a cv2 \<Rightarrow> ('a, 'p) imaging \<Rightarrow> ('p, 'pg, 'vs) services \<Rightarrow> 'vs session_state \<Rightarrow>
   uploaded_file list \<Rightarrow> bool \<Rightarrow> int \<Rightarrow> int \<Rightarrow> 'vs session_state" where
  "process_documents cv im sv st uploaded_files ocr_enabled chunk_size chunk_overlap =
     (case bind_exn (process_each cv im sv uploaded_files ocr_enabled chunk_size chunk_overlap)
             (\<lambda>all_documents.
                bind_exn (create_vectorstore sv all_documents) (\<lambda>vs.
                Inr (all_documents, vs))) of
        Inr (all_documents, vs) \<Rightarrow>
          st\<lparr>vectorstore := Some vs,
             processed_docs := processed_docs st @ map name uploaded_files,
             st_successes := st_successes st @
               [success_message (length uploaded_files) (length all_documents)]\<rparr>
      | Inl e \<Rightarrow>
          st\<lparr>st_errors := st_errors st @
               [ustr ''Error processing documents: '' @ str_of_exn e]\<rparr>)"

section \<open>Loading the module \<open>utils/ocr_processor.py\<close>\<close>

text \<open>
  Python executes the statements of a module in order. An \<open>import\<close> binds names in the
  module's namespace, an assignment evaluates its right-hand side and binds its target,
  and a \<open>class\<close> statement executes its body in a new namespace and binds the class name
  afterwards. A \<open>def\<close> evaluates its default values and then its annotations when it is
  executed (the module has no \<open>from __future__ import annotations\<close>, and the
  interpreter is one before Python 3.14, which defers annotations); a name is looked
  up in the class namespace, the module namespace and the builtins, and a name bound in
  none of them raises \<open>NameError\<close>. A statement is given by the names it binds and the
  names it evaluates, in the order of evaluation.
\<close>

datatype def_stmt = FunctionDef string "string list"

datatype stmt =
    Import "string list"
  | Assign string "string list"
  | ClassDef string "def_stmt list"

datatype load_error = NameError string

definition builtins :: "string list" where
  "builtins =
     [''str'', ''float'', ''int'', ''bool'', ''len'', ''abs'', ''enumerate'', ''range'',
      ''list'', ''dict'', ''tuple'', ''Exception'']"

definition initial_namespace :: "string list" where
  "initial_namespace = [''__name__'', ''__doc__'', ''__file__'']"

definition eval_names :: "string list \<Rightarrow> string list \<Rightarrow> load_error option" where
  "eval_names bound names =
     (case filter (\<lambda>n. n \<notin> set bound) names of
        [] \<Rightarrow> None
      | n # ns \<Rightarrow> Some (NameError n))"

fun exec_class_body :: "string list \<Rightarrow> string list \<Rightarrow> def_stmt list \<Rightarrow> load_error + string list" where
  "exec_class_body cls globals [] = Inr cls"
| "exec_class_body cls globals (FunctionDef f names # ds) =
     (case eval_names (cls @ globals @ builtins) names of
        Some e \<Rightarrow> Inl e
      | None \<Rightarrow> exec_class_body (f # cls) globals ds)"

fun exec_stmt :: "string list \<Rightarrow> stmt \<Rightarrow> load_error + string list" where
  "exec_stmt globals (Import names) = Inr (names @ globals)"
| "exec_stmt globals (Assign target names) =
     (case eval_names (globals @ builtins) names of
        Some e \<Rightarrow> Inl e
      | None \<Rightarrow> Inr (target # globals))"
| "exec_stmt globals (ClassDef c body) =
     (case exec_class_body [] globals body of
        Inl e \<Rightarrow> Inl e
      | Inr cls \<Rightarrow> Inr (c # globals))"

text \<open>
  The namespace when the execution of the module ends, and the exception that ended it,
  if any.
\<close>

fun exec_module :: "string list \<Rightarrow> stmt list \<Rightarrow> string list \<times> load_error option" where
  "exec_module globals [] = (globals, None)"
| "exec_module globals (s # ss) =
     (case exec_stmt globals s of
        Inl e \<Rightarrow> (globals, Some e)
      | Inr globals' \<Rightarrow> exec_module globals' ss)"

text \<open>
  The module, statement by statement: lines 1 to 7 are the imports, line 9 binds
  \<open>logger\<close>, and the class has the methods of lines 14 to 282 with the names of their
  annotations.
\<close>

definition typing_imports :: "string list" where
  "typing_imports = [''Optional'', ''Tuple'', ''Dict'', ''Any'']"

definition ocr_processor_methods :: "def_stmt list" where
  "ocr_processor_methods =
     [FunctionDef ''__init__'' [],
      FunctionDef ''preprocess_image'' [''np'', ''str'', ''np''],
      FunctionDef ''_preprocess_default'' [''np'', ''np''],
      FunctionDef ''_preprocess_scanned_document'' [''np'', ''np''],
      FunctionDef ''_preprocess_photo_document'' [''np'', ''np''],
      FunctionDef ''_preprocess_low_quality'' [''np'', ''np''],
      FunctionDef ''_preprocess_handwritten'' [''np'', ''np''],
      FunctionDef ''_deskew_image'' [''np'', ''np''],
      FunctionDef ''_correct_perspective'' [''np'', ''np''],
      FunctionDef ''_remove_shadows'' [''np'', ''np''],
      FunctionDef ''extract_text''
        [''Image'', ''str'', ''str'', ''str'', ''float'', ''Dict'', ''str'', ''Any''],
      FunctionDef ''detect_language'' [''Image'', ''str''],
      FunctionDef ''get_text_regions'' [''Image'', ''List'', ''Dict'']]"

definition ocr_processor_module :: "string list \<Rightarrow> stmt list" where
  "ocr_processor_module from_typing =
     [Import [''cv2''],
      Import [''np''],
      Import [''pytesseract''],
      Import [''Image'', ''ImageEnhance'', ''ImageFilter''],
      Import [''logging''],
      Import from_typing,
      Import [''io''],
      Assign ''logger'' [''logging'', ''__name__''],
      ClassDef ''OCRProcessor'' ocr_processor_methods]"

section \<open>A small instance of the libraries\<close>

text \<open>
  To run the model on concrete inputs the libraries are instantiated: an array is
  either raw, known by its shape, or the result of \<open>warpAffine\<close>, known by its
  arguments; a PIL image is such an array; every filter returns its argument, except
  that \<open>medianBlur\<close> raises when \<open>blur_fails\<close> is set; \<open>HoughLines\<close> returns the given
  lines; Tesseract returns the given text and data, or raises when there is none; a PDF
  page is its text layer; the splitter returns the text as one chunk; the vector store
  is the list of documents it was built from.
\<close>

datatype sim_array =
    Pixels "nat list"
  | Warped sim_array affine "nat \<times> nat" interpolation border_mode

fun sim_shape :: "sim_array \<Rightarrow> nat list" where
  "sim_shape (Pixels sh) = sh"
| "sim_shape (Warped a m (w, h) i b) = [h, w]"

definition cv2_error :: exn where
  "cv2_error = LibError (ustr ''cv2.error'')"

definition tesseract_error :: exn where
  "tesseract_error = LibError (ustr ''TesseractError'')"

definition sim_cv2 :: "(real \<times> real) list option \<Rightarrow> bool \<Rightarrow> sim_array cv2" where
  "sim_cv2 lines blur_fails =
     \<lparr>np_shape = sim_shape,
      cv2_cvtColor = (\<lambda>a c. Inr a),
      cv2_medianBlur = (\<lambda>a k. if blur_fails then Inl cv2_error else Inr a),
      cv2_clahe_apply = (\<lambda>clip tiles a. Inr a),
      cv2_threshold = (\<lambda>a lo hi t. Inr a),
      cv2_adaptiveThreshold = (\<lambda>a m am t bs c. Inr a),
      cv2_morphologyEx = (\<lambda>a m k. Inr a),
      cv2_filter2D = (\<lambda>a d k. Inr a),
      cv2_resize = (\<lambda>a fx fy i. Inr a),
      cv2_fastNlMeansDenoising = (\<lambda>a h t s. Inr a),
      cv2_bilateralFilter = (\<lambda>a d sc ss. Inr a),
      cv2_dilate = (\<lambda>a k. Inr a),
      cv2_absdiff = (\<lambda>a b. Inr a),
      np_rsub = (\<lambda>n a. Inr a),
      cv2_normalize = (\<lambda>a lo hi. Inr a),
      cv2_Canny = (\<lambda>a lo hi ap. Inr a),
      cv2_HoughLines = (\<lambda>a rho theta t. Inr lines),
      cv2_warpAffine = (\<lambda>a m sz i b. Inr (Warped a m sz i b))\<rparr>"

definition sim_imaging :: "pystr option \<Rightarrow> tess_data option \<Rightarrow> (sim_array, sim_array) imaging" where
  "sim_imaging recognised data =
     \<lparr>np_array = Inr,
      Image_fromarray = Inr,
      Image_open = (\<lambda>f. Inr (Pixels [length (file_bytes f), 1])),
      image_to_string =
        (\<lambda>p c. case recognised of None \<Rightarrow> Inl tesseract_error | Some t \<Rightarrow> Inr t),
      image_to_data =
        (\<lambda>p c l. case data of None \<Rightarrow> Inl tesseract_error | Some d \<Rightarrow> Inr d)\<rparr>"

definition sim_services :: "(sim_array, pystr, document list) services" where
  "sim_services =
     \<lparr>fitz_open = (\<lambda>bs. Inr []),
      page_get_text = Inr,
      page_to_image = (\<lambda>pg. Inr (Pixels [1, 1])),
      docx_Document = (\<lambda>bs. Inr \<lparr>paragraphs = [], tables = []\<rparr>),
      split_text = (\<lambda>t chunk_size chunk_overlap. Inr [t]),
      Chroma_from_documents = Inr\<rparr>"

text \<open>
  The same instance of OpenCV, in which the one operation named \<open>failing\<close> raises.
\<close>

definition sim_step :: "string \<Rightarrow> string \<Rightarrow> sim_array \<Rightarrow> exn + sim_array" where
  "sim_step failing op a = (if op = failing then Inl cv2_error else Inr a)"

definition sim_cv2_failing :: "(real \<times> real) list option \<Rightarrow> string \<Rightarrow> sim_array cv2" where
  "sim_cv2_failing lines failing =
     \<lparr>np_shape = sim_shape,
      cv2_cvtColor = (\<lambda>a c. sim_step failing ''cvtColor'' a),
      cv2_medianBlur = (\<lambda>a k. sim_step failing ''medianBlur'' a),
      cv2_clahe_apply = (\<lambda>clip tiles a. sim_step failing ''clahe'' a),
      cv2_threshold = (\<lambda>a lo hi t. sim_step failing ''threshold'' a),
      cv2_adaptiveThreshold = (\<lambda>a m am t bs c. sim_step failing ''adaptiveThreshold'' a),
      cv2_morphologyEx = (\<lambda>a m k. sim_step failing ''morphologyEx'' a),
      cv2_filter2D = (\<lambda>a d k. sim_step failing ''filter2D'' a),
      cv2_resize = (\<lambda>a fx fy i. sim_step failing ''resize'' a),
      cv2_fastNlMeansDenoising = (\<lambda>a h t s. sim_step failing ''fastNlMeansDenoising'' a),
      cv2_bilateralFilter = (\<lambda>a d sc ss. sim_step failing ''bilateralFilter'' a),
      cv2_dilate = (\<lambda>a k. sim_step failing ''dilate'' a),
      cv2_absdiff = (\<lambda>a b. sim_step failing ''absdiff'' a),
      np_rsub = (\<lambda>n a. sim_step failing ''rsub'' a),
      cv2_normalize = (\<lambda>a lo hi. sim_step failing ''normalize'' a),
      cv2_Canny = (\<lambda>a lo hi ap. sim_step failing ''Canny'' a),
      cv2_HoughLines =
        (\<lambda>a rho theta t. if failing = ''HoughLines'' then Inl cv2_error else Inr lines),
      cv2_warpAffine =
        (\<lambda>a m sz i b. if failing = ''warpAffine'' then Inl cv2_error
                      else Inr (Warped a m sz i b))\<rparr>"

text \<open>Sample inputs: an empty session, two uploads holding the bytes of \<open>hi\<close> and a
  zero-byte upload.\<close>

definition empty_session :: "document list session_state" where
  "empty_session =
     \<lparr>vectorstore = None, processed_docs = [], st_errors = [], st_successes = []\<rparr>"

definition notes_txt :: uploaded_file where
  "notes_txt = upload (ustr ''notes.txt'') [0x68, 0x69]"

definition scan_xyz :: uploaded_file where
  "scan_xyz = upload (ustr ''scan.xyz'') [0x68, 0x69]"

definition empty_txt :: uploaded_file where
  "empty_txt = upload (ustr ''empty.txt'') []"

definition notes_chunk :: document where
  "notes_chunk =
     \<lparr>page_content = ustr ''hi'',
      meta_filename = ustr ''notes.txt'',
      meta_file_type = ustr ''txt'',
      meta_chunk_id = 0,
      meta_total_chunks = 1,
      meta_ocr_enabled = True\<rparr>"

definition sample_data :: tess_data where
  "sample_data =
     \<lparr>tess_conf = [- 1, 95, 40, 80, 90],
      tess_text = [[], ustr ''Hello'', ustr ''wrld'', ustr ''  '', ustr ''world '']\<rparr>"

text \<open>
  Four detected lines, with \<open>theta\<close> of 100, 170, 96 and 98 degrees: their angles are
  10, 80, 6 and 8 degrees.
\<close>

definition skewed_lines :: "(real \<times> real) list" where
  "skewed_lines =
     [(0, 100 * pi / 180), (5, 170 * pi / 180), (7, 96 * pi / 180), (2, 98 * pi / 180)]"

section \<open>Properties\<close>

lemma bind_exn_Inl [simp]: "bind_exn (Inl e) f = Inl e"
  by (simp add: bind_exn_def)

lemma bind_exn_Inr [simp]: "bind_exn (Inr x) f = f x"
  by (simp add: bind_exn_def)

subsection \<open>The plain-text extractor\<close>

lemma decode_outcome_error: "decode_outcome (Inl utf8_error)"
  by (simp add: decode_outcome_def utf8_error_def)

lemma decode_outcome_Inr: "decode_outcome (Inr s)"
  by (simp add: decode_outcome_def)

lemma decode_outcome_cons: "decode_outcome r \<Longrightarrow> decode_outcome (cons_cp c r)"
  by (cases r) (simp_all add: decode_outcome_def cons_cp_def)

lemma decode_utf8_outcome: "decode_outcome (decode_utf8 bs)"
proof (induction bs rule: decode_utf8.induct)
  case 1
  show ?case by (simp add: decode_outcome_Inr)
next
  case (2 b bs)
  note step = decode_outcome_error decode_outcome_cons decode_outcome_Inr
  show ?case
  proof (cases bs)
    case Nil
    then show ?thesis using 2 by (simp add: Let_def step)
  next
    case c1: (Cons c1 r1)
    show ?thesis
    proof (cases r1)
      case Nil
      then show ?thesis using 2 c1 by (simp add: Let_def step)
    next
      case c2: (Cons c2 r2)
      show ?thesis
      proof (cases r2)
        case Nil
        then show ?thesis using 2 c1 c2 by (simp add: Let_def step)
      next
        case (Cons c3 r3)
        then show ?thesis using 2 c1 c2 by (simp add: Let_def step)
      qed
    qed
  qed
qed

lemma decode_utf8_cases:
  obtains s where "decode_utf8 bs = Inr s"
  | m where "decode_utf8 bs = Inl (UnicodeDecodeError m)"
  using decode_utf8_outcome [of bs]
  by (auto simp: decode_outcome_def split: sum.splits exn.splits)

text \<open>
  C8. The plain-text extractor returns a string on every uploaded file, whatever its
  bytes and position: the UTF-8 decoding of the bytes read when they are well-formed
  UTF-8, and otherwise the Latin-1 decoding of the whole content, which has one code
  point per byte.
\<close>

theorem process_txt_never_raises:
  "(\<exists>s. fst (process_txt f) = Inr s) \<and>
   (\<forall>s. decode_utf8 (drop (file_pos f) (file_bytes f)) = Inr s \<longrightarrow>
        fst (process_txt f) = Inr s) \<and>
   (\<forall>e. decode_utf8 (drop (file_pos f) (file_bytes f)) = Inl e \<longrightarrow>
        fst (process_txt f) = Inr (decode_latin1 (file_bytes f)) \<and>
        length (decode_latin1 (file_bytes f)) = length (file_bytes f))"
proof (cases "drop (file_pos f) (file_bytes f)" rule: decode_utf8_cases)
  case (1 s)
  then show ?thesis
    by (simp add: process_txt_def read_def)
next
  case (2 m)
  then show ?thesis
    by (simp add: process_txt_def read_def seek_def decode_latin1_def)
qed

theorem process_txt_never_raises_witness:
  "decode_utf8 [0xFF, 0x41] = Inl utf8_error \<and>
   fst (process_txt (upload (ustr ''a.txt'') [0xFF, 0x41])) = Inr [255, 65] \<and>
   decode_utf8 [0xC3, 0xA9, 0x21] = Inr [233, 33] \<and>
   fst (process_txt (upload (ustr ''b.txt'') [0xC3, 0xA9, 0x21])) = Inr [233, 33]"
  using process_txt_never_raises [of "upload (ustr ''a.txt'') [0xFF, 0x41]"]
        process_txt_never_raises [of "upload (ustr ''b.txt'') [0xC3, 0xA9, 0x21]"]
  by (simp add: upload_def decode_latin1_def Let_def is_cont_def cont_bits_def cons_cp_def)

subsection \<open>Loading the OCR module\<close>

text \<open>
  C9. Executing the module \<open>utils/ocr_processor.py\<close> ends with \<open>NameError\<close> for the
  name \<open>List\<close>, which the import from \<open>typing\<close> does not bind; the class statement
  does not complete, so the name \<open>OCRProcessor\<close> is never bound and none of its
  methods can be called.
\<close>

theorem ocr_processor_module_fails_to_load:
  "snd (exec_module initial_namespace (ocr_processor_module typing_imports)) =
     Some (NameError ''List'') \<and>
   ''OCRProcessor'' \<notin>
     set (fst (exec_module initial_namespace (ocr_processor_module typing_imports))) \<and>
   ''List'' \<notin> set typing_imports"
  by (simp add: ocr_processor_module_def typing_imports_def initial_namespace_def
      ocr_processor_methods_def builtins_def eval_names_def)

text \<open>With \<open>List\<close> among the names imported from \<open>typing\<close> the module loads.\<close>

lemma module_loads_with_List:
  "snd (exec_module initial_namespace (ocr_processor_module (''List'' # typing_imports))) =
     None \<and>
   ''OCRProcessor'' \<in>
     set (fst (exec_module initial_namespace
            (ocr_processor_module (''List'' # typing_imports))))"
  by (simp add: ocr_processor_module_def typing_imports_def initial_namespace_def
      ocr_processor_methods_def builtins_def eval_names_def)

subsection \<open>Image preprocessing\<close>

lemma profile_names:
  "ustr ''scanned_document'' \<noteq> ustr ''photo_document''"
  "ustr ''scanned_document'' \<noteq> ustr ''low_quality''"
  "ustr ''scanned_document'' \<noteq> ustr ''handwritten''"
  "ustr ''photo_document'' \<noteq> ustr ''low_quality''"
  "ustr ''photo_document'' \<noteq> ustr ''handwritten''"
  "ustr ''low_quality'' \<noteq> ustr ''handwritten''"
  by (simp_all add: ustr_def)

lemma deskew_image_steps:
  "(\<forall>e. cv2_Canny cv g 50 150 3 = Inl e \<longrightarrow> deskew_image cv g = Inl e) \<and>
   (\<forall>ed e. cv2_Canny cv g 50 150 3 = Inr ed \<and>
      cv2_HoughLines cv ed 1 (pi / 180) 100 = Inl e \<longrightarrow> deskew_image cv g = Inl e) \<and>
   (\<forall>ed ls. cv2_Canny cv g 50 150 3 = Inr ed \<and>
      cv2_HoughLines cv ed 1 (pi / 180) 100 = Inr (Some ls) \<and> accepted_angles ls \<noteq> [] \<and>
      (\<forall>h w. np_shape cv g \<noteq> [h, w]) \<longrightarrow> deskew_image cv g = Inl unpack_error) \<and>
   (\<forall>ed ls h w e. cv2_Canny cv g 50 150 3 = Inr ed \<and>
      cv2_HoughLines cv ed 1 (pi / 180) 100 = Inr (Some ls) \<and> accepted_angles ls \<noteq> [] \<and>
      np_shape cv g = [h, w] \<and>
      cv2_warpAffine cv g
        (getRotationMatrix2D (w div 2, h div 2) (np_median (accepted_angles ls)) 1) (w, h)
        INTER_CUBIC BORDER_REPLICATE = Inl e \<longrightarrow> deskew_image cv g = Inl e)"
  by (auto simp add: deskew_image_def Let_def split: list.splits)

lemma profile_scanned_document:
  assumes "(if length (np_shape cv img) = 3 then cv2_cvtColor cv img COLOR_BGR2GRAY else Inr img) = Inr g"
  shows "(ptype = ustr ''scanned_document'' \<longrightarrow>
         (\<forall>e. deskew_image cv g = Inl e \<longrightarrow>
            preprocess_image cv img ptype = img) \<and>
         (\<forall>ds e. deskew_image cv g = Inr ds \<and>
            cv2_morphologyEx cv ds MORPH_CLOSE (Ones 1 1) = Inl e \<longrightarrow>
            preprocess_image cv img ptype = img) \<and>
         (\<forall>ds cl e. deskew_image cv g = Inr ds \<and>
            cv2_morphologyEx cv ds MORPH_CLOSE (Ones 1 1) = Inr cl \<and>
            cv2_medianBlur cv cl 3 = Inl e \<longrightarrow>
            preprocess_image cv img ptype = img) \<and>
         (\<forall>ds cl bl e. deskew_image cv g = Inr ds \<and>
            cv2_morphologyEx cv ds MORPH_CLOSE (Ones 1 1) = Inr cl \<and>
            cv2_medianBlur cv cl 3 = Inr bl \<and>
            cv2_adaptiveThreshold cv bl 255 ADAPTIVE_THRESH_GAUSSIAN_C THRESH_BINARY 11 2 = Inl e \<longrightarrow>
            preprocess_image cv img ptype = img) \<and>
         (\<forall>ds cl bl out. deskew_image cv g = Inr ds \<and>
            cv2_morphologyEx cv ds MORPH_CLOSE (Ones 1 1) = Inr cl \<and>
            cv2_medianBlur cv cl 3 = Inr bl \<and>
            cv2_adaptiveThreshold cv bl 255 ADAPTIVE_THRESH_GAUSSIAN_C THRESH_BINARY 11 2 = Inr out \<longrightarrow>
            preprocess_image cv img ptype = out))"
  using assms profile_names
  by (auto simp add: preprocess_image_def preprocess_image_try_def preprocess_scanned_document_def
      remove_shadows_def correct_perspective_def)

lemma profile_photo_document:
  assumes "(if length (np_shape cv img) = 3 then cv2_cvtColor cv img COLOR_BGR2GRAY else Inr img) = Inr g"
  shows "(ptype = ustr ''photo_document'' \<longrightarrow>
         (\<forall>e. cv2_dilate cv g (Ones 7 7) = Inl e \<longrightarrow>
            preprocess_image cv img ptype = img) \<and>
         (\<forall>dl e. cv2_dilate cv g (Ones 7 7) = Inr dl \<and>
            cv2_medianBlur cv dl 21 = Inl e \<longrightarrow>
            preprocess_image cv img ptype = img) \<and>
         (\<forall>dl bg e. cv2_dilate cv g (Ones 7 7) = Inr dl \<and>
            cv2_medianBlur cv dl 21 = Inr bg \<and>
            cv2_absdiff cv g bg = Inl e \<longrightarrow>
            preprocess_image cv img ptype = img) \<and>
         (\<forall>dl bg df e. cv2_dilate cv g (Ones 7 7) = Inr dl \<and>
            cv2_medianBlur cv dl 21 = Inr bg \<and>
            cv2_absdiff cv g bg = Inr df \<and>
            np_rsub cv 255 df = Inl e \<longrightarrow>
            preprocess_image cv img ptype = img) \<and>
         (\<forall>dl bg df iv e. cv2_dilate cv g (Ones 7 7) = Inr dl \<and>
            cv2_medianBlur cv dl 21 = Inr bg \<and>
            cv2_absdiff cv g bg = Inr df \<and>
            np_rsub cv 255 df = Inr iv \<and>
            cv2_normalize cv iv 0 255 = Inl e \<longrightarrow>
            preprocess_image cv img ptype = img) \<and>
         (\<forall>dl bg df iv sf e. cv2_dilate cv g (Ones 7 7) = Inr dl \<and>
            cv2_medianBlur cv dl 21 = Inr bg \<and>
            cv2_absdiff cv g bg = Inr df \<and>
            np_rsub cv 255 df = Inr iv \<and>
            cv2_normalize cv iv 0 255 = Inr sf \<and>
            cv2_clahe_apply cv 3 (8, 8) sf = Inl e \<longrightarrow>
            preprocess_image cv img ptype = img) \<and>
         (\<forall>dl bg df iv sf en e. cv2_dilate cv g (Ones 7 7) = Inr dl \<and>
            cv2_medianBlur cv dl 21 = Inr bg \<and>
            cv2_absdiff cv g bg = Inr df \<and>
            np_rsub cv 255 df = Inr iv \<and>
            cv2_normalize cv iv 0 255 = Inr sf \<and>
            cv2_clahe_apply cv 3 (8, 8) sf = Inr en \<and>
            cv2_filter2D cv en (- 1) (Matrix [[- 1, - 1, - 1], [- 1, 9, - 1], [- 1, - 1, - 1]]) = Inl e \<longrightarrow>
            preprocess_image cv img ptype = img) \<and>
         (\<forall>dl bg df iv sf en sh e. cv2_dilate cv g (Ones 7 7) = Inr dl \<and>
            cv2_medianBlur cv dl 21 = Inr bg \<and>
            cv2_absdiff cv g bg = Inr df \<and>
            np_rsub cv 255 df = Inr iv \<and>
            cv2_normalize cv iv 0 255 = Inr sf \<and>
            cv2_clahe_apply cv 3 (8, 8) sf = Inr en \<and>
            cv2_filter2D cv en (- 1) (Matrix [[- 1, - 1, - 1], [- 1, 9, - 1], [- 1, - 1, - 1]]) = Inr sh \<and>
            cv2_threshold cv sh 0 255 THRESH_BINARY_OTSU = Inl e \<longrightarrow>
            preprocess_image cv img ptype = img) \<and>
         (\<forall>dl bg df iv sf en sh out. cv2_dilate cv g (Ones 7 7) = Inr dl \<and>
            cv2_medianBlur cv dl 21 = Inr bg \<and>
            cv2_absdiff cv g bg = Inr df \<and>
            np_rsub cv 255 df = Inr iv \<and>
            cv2_normalize cv iv 0 255 = Inr sf \<and>
            cv2_clahe_apply cv 3 (8, 8) sf = Inr en \<and>
            cv2_filter2D cv en (- 1) (Matrix [[- 1, - 1, - 1], [- 1, 9, - 1], [- 1, - 1, - 1]]) = Inr sh \<and>
            cv2_threshold cv sh 0 255 THRESH_BINARY_OTSU = Inr out \<longrightarrow>
            preprocess_image cv img ptype = out))"
  using assms profile_names
  by (auto simp add: preprocess_image_def preprocess_image_try_def preprocess_photo_document_def
      remove_shadows_def correct_perspective_def)

lemma profile_low_quality:
  assumes "(if length (np_shape cv img) = 3 then cv2_cvtColor cv img COLOR_BGR2GRAY else Inr img) = Inr g"
  shows "(ptype = ustr ''low_quality'' \<longrightarrow>
         (\<forall>e. cv2_resize cv g 2 2 INTER_CUBIC = Inl e \<longrightarrow>
            preprocess_image cv img ptype = img) \<and>
         (\<forall>up e. cv2_resize cv g 2 2 INTER_CUBIC = Inr up \<and>
            cv2_fastNlMeansDenoising cv up 10 7 21 = Inl e \<longrightarrow>
            preprocess_image cv img ptype = img) \<and>
         (\<forall>up dn e. cv2_resize cv g 2 2 INTER_CUBIC = Inr up \<and>
            cv2_fastNlMeansDenoising cv up 10 7 21 = Inr dn \<and>
            cv2_filter2D cv dn (- 1) (Matrix [[0, - 1, 0], [- 1, 5, - 1], [0, - 1, 0]]) = Inl e \<longrightarrow>
            preprocess_image cv img ptype = img) \<and>
         (\<forall>up dn sh e. cv2_resize cv g 2 2 INTER_CUBIC = Inr up \<and>
            cv2_fastNlMeansDenoising cv up 10 7 21 = Inr dn \<and>
            cv2_filter2D cv dn (- 1) (Matrix [[0, - 1, 0], [- 1, 5, - 1], [0, - 1, 0]]) = Inr sh \<and>
            cv2_clahe_apply cv 4 (8, 8) sh = Inl e \<longrightarrow>
            preprocess_image cv img ptype = img) \<and>
         (\<forall>up dn sh en e. cv2_resize cv g 2 2 INTER_CUBIC = Inr up \<and>
            cv2_fastNlMeansDenoising cv up 10 7 21 = Inr dn \<and>
            cv2_filter2D cv dn (- 1) (Matrix [[0, - 1, 0], [- 1, 5, - 1], [0, - 1, 0]]) = Inr sh \<and>
            cv2_clahe_apply cv 4 (8, 8) sh = Inr en \<and>
            cv2_threshold cv en 0 255 THRESH_BINARY_OTSU = Inl e \<longrightarrow>
            preprocess_image cv img ptype = img) \<and>
         (\<forall>up dn sh en out. cv2_resize cv g 2 2 INTER_CUBIC = Inr up \<and>
            cv2_fastNlMeansDenoising cv up 10 7 21 = Inr dn \<and>
            cv2_filter2D cv dn (- 1) (Matrix [[0, - 1, 0], [- 1, 5, - 1], [0, - 1, 0]]) = Inr sh \<and>
            cv2_clahe_apply cv 4 (8, 8) sh = Inr en \<and>
            cv2_threshold cv en 0 255 THRESH_BINARY_OTSU = Inr out \<longrightarrow>
            preprocess_image cv img ptype = out))"
  using assms profile_names
  by (auto simp add: preprocess_image_def preprocess_image_try_def preprocess_low_quality_def
      remove_shadows_def correct_perspective_def)

lemma profile_handwritten:
  assumes "(if length (np_shape cv img) = 3 then cv2_cvtColor cv img COLOR_BGR2GRAY else Inr img) = Inr g"
  shows "(ptype = ustr ''handwritten'' \<longrightarrow>
         (\<forall>e. cv2_bilateralFilter cv g 9 75 75 = Inl e \<longrightarrow>
            preprocess_image cv img ptype = img) \<and>
         (\<forall>dn e. cv2_bilateralFilter cv g 9 75 75 = Inr dn \<and>
            cv2_morphologyEx cv dn MORPH_CLOSE (StructuringElement MORPH_ELLIPSE 2 2) = Inl e \<longrightarrow>
            preprocess_image cv img ptype = img) \<and>
         (\<forall>dn mo e. cv2_bilateralFilter cv g 9 75 75 = Inr dn \<and>
            cv2_morphologyEx cv dn MORPH_CLOSE (StructuringElement MORPH_ELLIPSE 2 2) = Inr mo \<and>
            cv2_adaptiveThreshold cv mo 255 ADAPTIVE_THRESH_GAUSSIAN_C THRESH_BINARY 15 10 = Inl e \<longrightarrow>
            preprocess_image cv img ptype = img) \<and>
         (\<forall>dn mo out. cv2_bilateralFilter cv g 9 75 75 = Inr dn \<and>
            cv2_morphologyEx cv dn MORPH_CLOSE (StructuringElement MORPH_ELLIPSE 2 2) = Inr mo \<and>
            cv2_adaptiveThreshold cv mo 255 ADAPTIVE_THRESH_GAUSSIAN_C THRESH_BINARY 15 10 = Inr out \<longrightarrow>
            preprocess_image cv img ptype = out))"
  using assms profile_names
  by (auto simp add: preprocess_image_def preprocess_image_try_def preprocess_handwritten_def
      remove_shadows_def correct_perspective_def)

lemma profile_default:
  assumes "(if length (np_shape cv img) = 3 then cv2_cvtColor cv img COLOR_BGR2GRAY else Inr img) = Inr g"
  shows "(ptype \<noteq> ustr ''scanned_document'' \<and> ptype \<noteq> ustr ''photo_document'' \<and> ptype \<noteq> ustr ''low_quality'' \<and> ptype \<noteq> ustr ''handwritten'' \<longrightarrow>
         (\<forall>e. cv2_medianBlur cv g 3 = Inl e \<longrightarrow>
            preprocess_image cv img ptype = img) \<and>
         (\<forall>dn e. cv2_medianBlur cv g 3 = Inr dn \<and>
            cv2_clahe_apply cv 2 (8, 8) dn = Inl e \<longrightarrow>
            preprocess_image cv img ptype = img) \<and>
         (\<forall>dn en e. cv2_medianBlur cv g 3 = Inr dn \<and>
            cv2_clahe_apply cv 2 (8, 8) dn = Inr en \<and>
            cv2_threshold cv en 0 255 THRESH_BINARY_OTSU = Inl e \<longrightarrow>
            preprocess_image cv img ptype = img) \<and>
         (\<forall>dn en out. cv2_medianBlur cv g 3 = Inr dn \<and>
            cv2_clahe_apply cv 2 (8, 8) dn = Inr en \<and>
            cv2_threshold cv en 0 255 THRESH_BINARY_OTSU = Inr out \<longrightarrow>
            preprocess_image cv img ptype = out))"
  using assms profile_names
  by (auto simp add: preprocess_image_def preprocess_image_try_def preprocess_default_def
      remove_shadows_def correct_perspective_def)

text \<open>
  C7. \<open>preprocess_image\<close> returns an array for every library behaviour, image and
  profile name. When a step of its \<open>try\<close> block raises, the result is the input
  image: so it is when the conversion to grayscale raises, and when any operation of the
  selected profile raises after the operations before it returned, the steps of the
  deskewing of a scanned document and the unpacking of a shape that is not
  two-dimensional included. When every step returns, the result is the output of the
  last one.
\<close>

theorem preprocess_image_never_raises:
  "(\<forall>e. preprocess_image_try cv img ptype = Inl e \<longrightarrow> preprocess_image cv img ptype = img) \<and>
   (\<forall>out. preprocess_image_try cv img ptype = Inr out \<longrightarrow>
      preprocess_image cv img ptype = out) \<and>
   (\<forall>e. (if length (np_shape cv img) = 3 then cv2_cvtColor cv img COLOR_BGR2GRAY else Inr img) = Inl e \<longrightarrow>
      preprocess_image cv img ptype = img) \<and>
   (\<forall>g. (if length (np_shape cv img) = 3 then cv2_cvtColor cv img COLOR_BGR2GRAY else Inr img) = Inr g \<longrightarrow>
      ((\<forall>e. cv2_Canny cv g 50 150 3 = Inl e \<longrightarrow> deskew_image cv g = Inl e) \<and>
           (\<forall>ed e. cv2_Canny cv g 50 150 3 = Inr ed \<and>
          cv2_HoughLines cv ed 1 (pi / 180) 100 = Inl e \<longrightarrow> deskew_image cv g = Inl e) \<and>
           (\<forall>ed ls. cv2_Canny cv g 50 150 3 = Inr ed \<and>
          cv2_HoughLines cv ed 1 (pi / 180) 100 = Inr (Some ls) \<and> accepted_angles ls \<noteq> [] \<and>
          (\<forall>h w. np_shape cv g \<noteq> [h, w]) \<longrightarrow> deskew_image cv g = Inl unpack_error) \<and>
           (\<forall>ed ls h w e. cv2_Canny cv g 50 150 3 = Inr ed \<and>
          cv2_HoughLines cv ed 1 (pi / 180) 100 = Inr (Some ls) \<and> accepted_angles ls \<noteq> [] \<and>
          np_shape cv g = [h, w] \<and>
          cv2_warpAffine cv g
            (getRotationMatrix2D (w div 2, h div 2) (np_median (accepted_angles ls)) 1) (w, h)
            INTER_CUBIC BORDER_REPLICATE = Inl e \<longrightarrow> deskew_image cv g = Inl e)) \<and>
      (ptype = ustr ''scanned_document'' \<longrightarrow>
          (\<forall>e. deskew_image cv g = Inl e \<longrightarrow>
             preprocess_image cv img ptype = img) \<and>
          (\<forall>ds e. deskew_image cv g = Inr ds \<and>
             cv2_morphologyEx cv ds MORPH_CLOSE (Ones 1 1) = Inl e \<longrightarrow>
             preprocess_image cv img ptype = img) \<and>
          (\<forall>ds cl e. deskew_image cv g = Inr ds \<and>
             cv2_morphologyEx cv ds MORPH_CLOSE (Ones 1 1) = Inr cl \<and>
             cv2_medianBlur cv cl 3 = Inl e \<longrightarrow>
             preprocess_image cv img ptype = img) \<and>
          (\<forall>ds cl bl e. deskew_image cv g = Inr ds \<and>
             cv2_morphologyEx cv ds MORPH_CLOSE (Ones 1 1) = Inr cl \<and>
             cv2_medianBlur cv cl 3 = Inr bl \<and>
             cv2_adaptiveThreshold cv bl 255 ADAPTIVE_THRESH_GAUSSIAN_C THRESH_BINARY 11 2 = Inl e \<longrightarrow>
             preprocess_image cv img ptype = img) \<and>
          (\<forall>ds cl bl out. deskew_image cv g = Inr ds \<and>
             cv2_morphologyEx cv ds MORPH_CLOSE (Ones 1 1) = Inr cl \<and>
             cv2_medianBlur cv cl 3 = Inr bl \<and>
             cv2_adaptiveThreshold cv bl 255 ADAPTIVE_THRESH_GAUSSIAN_C THRESH_BINARY 11 2 = Inr out \<longrightarrow>
             preprocess_image cv img ptype = out)) \<and>
      (ptype = ustr ''photo_document'' \<longrightarrow>
          (\<forall>e. cv2_dilate cv g (Ones 7 7) = Inl e \<longrightarrow>
             preprocess_image cv img ptype = img) \<and>
          (\<forall>dl e. cv2_dilate cv g (Ones 7 7) = Inr dl \<and>
             cv2_medianBlur cv dl 21 = Inl e \<longrightarrow>
             preprocess_image cv img ptype = img) \<and>
          (\<forall>dl bg e. cv2_dilate cv g (Ones 7 7) = Inr dl \<and>
             cv2_medianBlur cv dl 21 = Inr bg \<and>
             cv2_absdiff cv g bg = Inl e \<longrightarrow>
             preprocess_image cv img ptype = img) \<and>
          (\<forall>dl bg df e. cv2_dilate cv g (Ones 7 7) = Inr dl \<and>
             cv2_medianBlur cv dl 21 = Inr bg \<and>
             cv2_absdiff cv g bg = Inr df \<and>
             np_rsub cv 255 df = Inl e \<longrightarrow>
             preprocess_image cv img ptype = img) \<and>
          (\<forall>dl bg df iv e. cv2_dilate cv g (Ones 7 7) = Inr dl \<and>
             cv2_medianBlur cv dl 21 = Inr bg \<and>
             cv2_absdiff cv g bg = Inr df \<and>
             np_rsub cv 255 df = Inr iv \<and>
             cv2_normalize cv iv 0 255 = Inl e \<longrightarrow>
             preprocess_image cv img ptype = img) \<and>
          (\<forall>dl bg df iv sf e. cv2_dilate cv g (Ones 7 7) = Inr dl \<and>
             cv2_medianBlur cv dl 21 = Inr bg \<and>
             cv2_absdiff cv g bg = Inr df \<and>
             np_rsub cv 255 df = Inr iv \<and>
             cv2_normalize cv iv 0 255 = Inr sf \<and>
             cv2_clahe_apply cv 3 (8, 8) sf = Inl e \<longrightarrow>
             preprocess_image cv img ptype = img) \<and>
          (\<forall>dl bg df iv sf en e. cv2_dilate cv g (Ones 7 7) = Inr dl \<and>
             cv2_medianBlur cv dl 21 = Inr bg \<and>
             cv2_absdiff cv g bg = Inr df \<and>
             np_rsub cv 255 df = Inr iv \<and>
             cv2_normalize cv iv 0 255 = Inr sf \<and>
             cv2_clahe_apply cv 3 (8, 8) sf = Inr en \<and>
             cv2_filter2D cv en (- 1) (Matrix [[- 1, - 1, - 1], [- 1, 9, - 1], [- 1, - 1, - 1]]) = Inl e \<longrightarrow>
             preprocess_image cv img ptype = img) \<and>
          (\<forall>dl bg df iv sf en sh e. cv2_dilate cv g (Ones 7 7) = Inr dl \<and>
             cv2_medianBlur cv dl 21 = Inr bg \<and>
             cv2_absdiff cv g bg = Inr df \<and>
             np_rsub cv 255 df = Inr iv \<and>
             cv2_normalize cv iv 0 255 = Inr sf \<and>
             cv2_clahe_apply cv 3 (8, 8) sf = Inr en \<and>
             cv2_filter2D cv en (- 1) (Matrix [[- 1, - 1, - 1], [- 1, 9, - 1], [- 1, - 1, - 1]]) = Inr sh \<and>
             cv2_threshold cv sh 0 255 THRESH_BINARY_OTSU = Inl e \<longrightarrow>
             preprocess_image cv img ptype = img) \<and>
          (\<forall>dl bg df iv sf en sh out. cv2_dilate cv g (Ones 7 7) = Inr dl \<and>
             cv2_medianBlur cv dl 21 = Inr bg \<and>
             cv2_absdiff cv g bg = Inr df \<and>
             np_rsub cv 255 df = Inr iv \<and>
             cv2_normalize cv iv 0 255 = Inr sf \<and>
             cv2_clahe_apply cv 3 (8, 8) sf = Inr en \<and>
             cv2_filter2D cv en (- 1) (Matrix [[- 1, - 1, - 1], [- 1, 9, - 1], [- 1, - 1, - 1]]) = Inr sh \<and>
             cv2_threshold cv sh 0 255 THRESH_BINARY_OTSU = Inr out \<longrightarrow>
             preprocess_image cv img ptype = out)) \<and>
      (ptype = ustr ''low_quality'' \<longrightarrow>
          (\<forall>e. cv2_resize cv g 2 2 INTER_CUBIC = Inl e \<longrightarrow>
             preprocess_image cv img ptype = img) \<and>
          (\<forall>up e. cv2_resize cv g 2 2 INTER_CUBIC = Inr up \<and>
             cv2_fastNlMeansDenoising cv up 10 7 21 = Inl e \<longrightarrow>
             preprocess_image cv img ptype = img) \<and>
          (\<forall>up dn e. cv2_resize cv g 2 2 INTER_CUBIC = Inr up \<and>
             cv2_fastNlMeansDenoising cv up 10 7 21 = Inr dn \<and>
             cv2_filter2D cv dn (- 1) (Matrix [[0, - 1, 0], [- 1, 5, - 1], [0, - 1, 0]]) = Inl e \<longrightarrow>
             preprocess_image cv img ptype = img) \<and>
          (\<forall>up dn sh e. cv2_resize cv g 2 2 INTER_CUBIC = Inr up \<and>
             cv2_fastNlMeansDenoising cv up 10 7 21 = Inr dn \<and>
             cv2_filter2D cv dn (- 1) (Matrix [[0, - 1, 0], [- 1, 5, - 1], [0, - 1, 0]]) = Inr sh \<and>
             cv2_clahe_apply cv 4 (8, 8) sh = Inl e \<longrightarrow>
             preprocess_image cv img ptype = img) \<and>
          (\<forall>up dn sh en e. cv2_resize cv g 2 2 INTER_CUBIC = Inr up \<and>
             cv2_fastNlMeansDenoising cv up 10 7 21 = Inr dn \<and>
             cv2_filter2D cv dn (- 1) (Matrix [[0, - 1, 0], [- 1, 5, - 1], [0, - 1, 0]]) = Inr sh \<and>
             cv2_clahe_apply cv 4 (8, 8) sh = Inr en \<and>
             cv2_threshold cv en 0 255 THRESH_BINARY_OTSU = Inl e \<longrightarrow>
             preprocess_image cv img ptype = img) \<and>
          (\<forall>up dn sh en out. cv2_resize cv g 2 2 INTER_CUBIC = Inr up \<and>
             cv2_fastNlMeansDenoising cv up 10 7 21 = Inr dn \<and>
             cv2_filter2D cv dn (- 1) (Matrix [[0, - 1, 0], [- 1, 5, - 1], [0, - 1, 0]]) = Inr sh \<and>
             cv2_clahe_apply cv 4 (8, 8) sh = Inr en \<and>
             cv2_threshold cv en 0 255 THRESH_BINARY_OTSU = Inr out \<longrightarrow>
             preprocess_image cv img ptype = out)) \<and>
      (ptype = ustr ''handwritten'' \<longrightarrow>
          (\<forall>e. cv2_bilateralFilter cv g 9 75 75 = Inl e \<longrightarrow>
             preprocess_image cv img ptype = img) \<and>
          (\<forall>dn e. cv2_bilateralFilter cv g 9 75 75 = Inr dn \<and>
             cv2_morphologyEx cv dn MORPH_CLOSE (StructuringElement MORPH_ELLIPSE 2 2) = Inl e \<longrightarrow>
             preprocess_image cv img ptype = img) \<and>
          (\<forall>dn mo e. cv2_bilateralFilter cv g 9 75 75 = Inr dn \<and>
             cv2_morphologyEx cv dn MORPH_CLOSE (StructuringElement MORPH_ELLIPSE 2 2) = Inr mo \<and>
             cv2_adaptiveThreshold cv mo 255 ADAPTIVE_THRESH_GAUSSIAN_C THRESH_BINARY 15 10 = Inl e \<longrightarrow>
             preprocess_image cv img ptype = img) \<and>
          (\<forall>dn mo out. cv2_bilateralFilter cv g 9 75 75 = Inr dn \<and>
             cv2_morphologyEx cv dn MORPH_CLOSE (StructuringElement MORPH_ELLIPSE 2 2) = Inr mo \<and>
             cv2_adaptiveThreshold cv mo 255 ADAPTIVE_THRESH_GAUSSIAN_C THRESH_BINARY 15 10 = Inr out \<longrightarrow>
             preprocess_image cv img ptype = out)) \<and>
      (ptype \<noteq> ustr ''scanned_document'' \<and> ptype \<noteq> ustr ''photo_document'' \<and> ptype \<noteq> ustr ''low_quality'' \<and> ptype \<noteq> ustr ''handwritten'' \<longrightarrow>
          (\<forall>e. cv2_medianBlur cv g 3 = Inl e \<longrightarrow>
             preprocess_image cv img ptype = img) \<and>
          (\<forall>dn e. cv2_medianBlur cv g 3 = Inr dn \<and>
             cv2_clahe_apply cv 2 (8, 8) dn = Inl e \<longrightarrow>
             preprocess_image cv img ptype = img) \<and>
          (\<forall>dn en e. cv2_medianBlur cv g 3 = Inr dn \<and>
             cv2_clahe_apply cv 2 (8, 8) dn = Inr en \<and>
             cv2_threshold cv en 0 255 THRESH_BINARY_OTSU = Inl e \<longrightarrow>
             preprocess_image cv img ptype = img) \<and>
          (\<forall>dn en out. cv2_medianBlur cv g 3 = Inr dn \<and>
             cv2_clahe_apply cv 2 (8, 8) dn = Inr en \<and>
             cv2_threshold cv en 0 255 THRESH_BINARY_OTSU = Inr out \<longrightarrow>
             preprocess_image cv img ptype = out)))"
proof -
  have a: "\<forall>e. preprocess_image_try cv img ptype = Inl e \<longrightarrow> preprocess_image cv img ptype = img"
    by (simp add: preprocess_image_def)
  have b: "\<forall>out. preprocess_image_try cv img ptype = Inr out \<longrightarrow>
      preprocess_image cv img ptype = out"
    by (simp add: preprocess_image_def)
  have c: "\<forall>e. (if length (np_shape cv img) = 3 then cv2_cvtColor cv img COLOR_BGR2GRAY else Inr img) = Inl e \<longrightarrow>
      preprocess_image cv img ptype = img"
    by (simp add: preprocess_image_def preprocess_image_try_def)
  have d: "\<forall>g. (if length (np_shape cv img) = 3 then cv2_cvtColor cv img COLOR_BGR2GRAY else Inr img) = Inr g \<longrightarrow>
      ((\<forall>e. cv2_Canny cv g 50 150 3 = Inl e \<longrightarrow> deskew_image cv g = Inl e) \<and>
           (\<forall>ed e. cv2_Canny cv g 50 150 3 = Inr ed \<and>
          cv2_HoughLines cv ed 1 (pi / 180) 100 = Inl e \<longrightarrow> deskew_image cv g = Inl e) \<and>
           (\<forall>ed ls. cv2_Canny cv g 50 150 3 = Inr ed \<and>
          cv2_HoughLines cv ed 1 (pi / 180) 100 = Inr (Some ls) \<and> accepted_angles ls \<noteq> [] \<and>
          (\<forall>h w. np_shape cv g \<noteq> [h, w]) \<longrightarrow> deskew_image cv g = Inl unpack_error) \<and>
           (\<forall>ed ls h w e. cv2_Canny cv g 50 150 3 = Inr ed \<and>
          cv2_HoughLines cv ed 1 (pi / 180) 100 = Inr (Some ls) \<and> accepted_angles ls \<noteq> [] \<and>
          np_shape cv g = [h, w] \<and>
          cv2_warpAffine cv g
            (getRotationMatrix2D (w div 2, h div 2) (np_median (accepted_angles ls)) 1) (w, h)
            INTER_CUBIC BORDER_REPLICATE = Inl e \<longrightarrow> deskew_image cv g = Inl e)) \<and>
      (ptype = ustr ''scanned_document'' \<longrightarrow>
          (\<forall>e. deskew_image cv g = Inl e \<longrightarrow>
             preprocess_image cv img ptype = img) \<and>
          (\<forall>ds e. deskew_image cv g = Inr ds \<and>
             cv2_morphologyEx cv ds MORPH_CLOSE (Ones 1 1) = Inl e \<longrightarrow>
             preprocess_image cv img ptype = img) \<and>
          (\<forall>ds cl e. deskew_image cv g = Inr ds \<and>
             cv2_morphologyEx cv ds MORPH_CLOSE (Ones 1 1) = Inr cl \<and>
             cv2_medianBlur cv cl 3 = Inl e \<longrightarrow>
             preprocess_image cv img ptype = img) \<and>
          (\<forall>ds cl bl e. deskew_image cv g = Inr ds \<and>
             cv2_morphologyEx cv ds MORPH_CLOSE (Ones 1 1) = Inr cl \<and>
             cv2_medianBlur cv cl 3 = Inr bl \<and>
             cv2_adaptiveThreshold cv bl 255 ADAPTIVE_THRESH_GAUSSIAN_C THRESH_BINARY 11 2 = Inl e \<longrightarrow>
             preprocess_image cv img ptype = img) \<and>
          (\<forall>ds cl bl out. deskew_image cv g = Inr ds \<and>
             cv2_morphologyEx cv ds MORPH_CLOSE (Ones 1 1) = Inr cl \<and>
             cv2_medianBlur cv cl 3 = Inr bl \<and>
             cv2_adaptiveThreshold cv bl 255 ADAPTIVE_THRESH_GAUSSIAN_C THRESH_BINARY 11 2 = Inr out \<longrightarrow>
             preprocess_image cv img ptype = out)) \<and>
      (ptype = ustr ''photo_document'' \<longrightarrow>
          (\<forall>e. cv2_dilate cv g (Ones 7 7) = Inl e \<longrightarrow>
             preprocess_image cv img ptype = img) \<and>
          (\<forall>dl e. cv2_dilate cv g (Ones 7 7) = Inr dl \<and>
             cv2_medianBlur cv dl 21 = Inl e \<longrightarrow>
             preprocess_image cv img ptype = img) \<and>
          (\<forall>dl bg e. cv2_dilate cv g (Ones 7 7) = Inr dl \<and>
             cv2_medianBlur cv dl 21 = Inr bg \<and>
             cv2_absdiff cv g bg = Inl e \<longrightarrow>
             preprocess_image cv img ptype = img) \<and>
          (\<forall>dl bg df e. cv2_dilate cv g (Ones 7 7) = Inr dl \<and>
             cv2_medianBlur cv dl 21 = Inr bg \<and>
             cv2_absdiff cv g bg = Inr df \<and>
             np_rsub cv 255 df = Inl e \<longrightarrow>
             preprocess_image cv img ptype = img) \<and>
          (\<forall>dl bg df iv e. cv2_dilate cv g (Ones 7 7) = Inr dl \<and>
             cv2_medianBlur cv dl 21 = Inr bg \<and>
             cv2_absdiff cv g bg = Inr df \<and>
             np_rsub cv 255 df = Inr iv \<and>
             cv2_normalize cv iv 0 255 = Inl e \<longrightarrow>
             preprocess_image cv img ptype = img) \<and>
          (\<forall>dl bg df iv sf e. cv2_dilate cv g (Ones 7 7) = Inr dl \<and>
             cv2_medianBlur cv dl 21 = Inr bg \<and>
             cv2_absdiff cv g bg = Inr df \<and>
             np_rsub cv 255 df = Inr iv \<and>
             cv2_normalize cv iv 0 255 = Inr sf \<and>
             cv2_clahe_apply cv 3 (8, 8) sf = Inl e \<longrightarrow>
             preprocess_image cv img ptype = img) \<and>
          (\<forall>dl bg df iv sf en e. cv2_dilate cv g (Ones 7 7) = Inr dl \<and>
             cv2_medianBlur cv dl 21 = Inr bg \<and>
             cv2_absdiff cv g bg = Inr df \<and>
             np_rsub cv 255 df = Inr iv \<and>
             cv2_normalize cv iv 0 255 = Inr sf \<and>
             cv2_clahe_apply cv 3 (8, 8) sf = Inr en \<and>
             cv2_filter2D cv en (- 1) (Matrix [[- 1, - 1, - 1], [- 1, 9, - 1], [- 1, - 1, - 1]]) = Inl e \<longrightarrow>
             preprocess_image cv img ptype = img) \<and>
          (\<forall>dl bg df iv sf en sh e. cv2_dilate cv g (Ones 7 7) = Inr dl \<and>
             cv2_medianBlur cv dl 21 = Inr bg \<and>
             cv2_absdiff cv g bg = Inr df \<and>
             np_rsub cv 255 df = Inr iv \<and>
             cv2_normalize cv iv 0 255 = Inr sf \<and>
             cv2_clahe_apply cv 3 (8, 8) sf = Inr en \<and>
             cv2_filter2D cv en (- 1) (Matrix [[- 1, - 1, - 1], [- 1, 9, - 1], [- 1, - 1, - 1]]) = Inr sh \<and>
             cv2_threshold cv sh 0 255 THRESH_BINARY_OTSU = Inl e \<longrightarrow>
             preprocess_image cv img ptype = img) \<and>
          (\<forall>dl bg df iv sf en sh out. cv2_dilate cv g (Ones 7 7) = Inr dl \<and>
             cv2_medianBlur cv dl 21 = Inr bg \<and>
             cv2_absdiff cv g bg = Inr df \<and>
             np_rsub cv 255 df = Inr iv \<and>
             cv2_normalize cv iv 0 255 = Inr sf \<and>
             cv2_clahe_apply cv 3 (8, 8) sf = Inr en \<and>
             cv2_filter2D cv en (- 1) (Matrix [[- 1, - 1, - 1], [- 1, 9, - 1], [- 1, - 1, - 1]]) = Inr sh \<and>
             cv2_threshold cv sh 0 255 THRESH_BINARY_OTSU = Inr out \<longrightarrow>
             preprocess_image cv img ptype = out)) \<and>
      (ptype = ustr ''low_quality'' \<longrightarrow>
          (\<forall>e. cv2_resize cv g 2 2 INTER_CUBIC = Inl e \<longrightarrow>
             preprocess_image cv img ptype = img) \<and>
          (\<forall>up e. cv2_resize cv g 2 2 INTER_CUBIC = Inr up \<and>
             cv2_fastNlMeansDenoising cv up 10 7 21 = Inl e \<longrightarrow>
             preprocess_image cv img ptype = img) \<and>
          (\<forall>up dn e. cv2_resize cv g 2 2 INTER_CUBIC = Inr up \<and>
             cv2_fastNlMeansDenoising cv up 10 7 21 = Inr dn \<and>
             cv2_filter2D cv dn (- 1) (Matrix [[0, - 1, 0], [- 1, 5, - 1], [0, - 1, 0]]) = Inl e \<longrightarrow>
             preprocess_image cv img ptype = img) \<and>
          (\<forall>up dn sh e. cv2_resize cv g 2 2 INTER_CUBIC = Inr up \<and>
             cv2_fastNlMeansDenoising cv up 10 7 21 = Inr dn \<and>
             cv2_filter2D cv dn (- 1) (Matrix [[0, - 1, 0], [- 1, 5, - 1], [0, - 1, 0]]) = Inr sh \<and>
             cv2_clahe_apply cv 4 (8, 8) sh = Inl e \<longrightarrow>
             preprocess_image cv img ptype = img) \<and>
          (\<forall>up dn sh en e. cv2_resize cv g 2 2 INTER_CUBIC = Inr up \<and>
             cv2_fastNlMeansDenoising cv up 10 7 21 = Inr dn \<and>
             cv2_filter2D cv dn (- 1) (Matrix [[0, - 1, 0], [- 1, 5, - 1], [0, - 1, 0]]) = Inr sh \<and>
             cv2_clahe_apply cv 4 (8, 8) sh = Inr en \<and>
             cv2_threshold cv en 0 255 THRESH_BINARY_OTSU = Inl e \<longrightarrow>
             preprocess_image cv img ptype = img) \<and>
          (\<forall>up dn sh en out. cv2_resize cv g 2 2 INTER_CUBIC = Inr up \<and>
             cv2_fastNlMeansDenoising cv up 10 7 21 = Inr dn \<and>
             cv2_filter2D cv dn (- 1) (Matrix [[0, - 1, 0], [- 1, 5, - 1], [0, - 1, 0]]) = Inr sh \<and>
             cv2_clahe_apply cv 4 (8, 8) sh = Inr en \<and>
             cv2_threshold cv en 0 255 THRESH_BINARY_OTSU = Inr out \<longrightarrow>
             preprocess_image cv img ptype = out)) \<and>
      (ptype = ustr ''handwritten'' \<longrightarrow>
          (\<forall>e. cv2_bilateralFilter cv g 9 75 75 = Inl e \<longrightarrow>
             preprocess_image cv img ptype = img) \<and>
          (\<forall>dn e. cv2_bilateralFilter cv g 9 75 75 = Inr dn \<and>
             cv2_morphologyEx cv dn MORPH_CLOSE (StructuringElement MORPH_ELLIPSE 2 2) = Inl e \<longrightarrow>
             preprocess_image cv img ptype = img) \<and>
          (\<forall>dn mo e. cv2_bilateralFilter cv g 9 75 75 = Inr dn \<and>
             cv2_morphologyEx cv dn MORPH_CLOSE (StructuringElement MORPH_ELLIPSE 2 2) = Inr mo \<and>
             cv2_adaptiveThreshold cv mo 255 ADAPTIVE_THRESH_GAUSSIAN_C THRESH_BINARY 15 10 = Inl e \<longrightarrow>
             preprocess_image cv img ptype = img) \<and>
          (\<forall>dn mo out. cv2_bilateralFilter cv g 9 75 75 = Inr dn \<and>
             cv2_morphologyEx cv dn MORPH_CLOSE (StructuringElement MORPH_ELLIPSE 2 2) = Inr mo \<and>
             cv2_adaptiveThreshold cv mo 255 ADAPTIVE_THRESH_GAUSSIAN_C THRESH_BINARY 15 10 = Inr out \<longrightarrow>
             preprocess_image cv img ptype = out)) \<and>
      (ptype \<noteq> ustr ''scanned_document'' \<and> ptype \<noteq> ustr ''photo_document'' \<and> ptype \<noteq> ustr ''low_quality'' \<and> ptype \<noteq> ustr ''handwritten'' \<longrightarrow>
          (\<forall>e. cv2_medianBlur cv g 3 = Inl e \<longrightarrow>
             preprocess_image cv img ptype = img) \<and>
          (\<forall>dn e. cv2_medianBlur cv g 3 = Inr dn \<and>
             cv2_clahe_apply cv 2 (8, 8) dn = Inl e \<longrightarrow>
             preprocess_image cv img ptype = img) \<and>
          (\<forall>dn en e. cv2_medianBlur cv g 3 = Inr dn \<and>
             cv2_clahe_apply cv 2 (8, 8) dn = Inr en \<and>
             cv2_threshold cv en 0 255 THRESH_BINARY_OTSU = Inl e \<longrightarrow>
             preprocess_image cv img ptype = img) \<and>
          (\<forall>dn en out. cv2_medianBlur cv g 3 = Inr dn \<and>
             cv2_clahe_apply cv 2 (8, 8) dn = Inr en \<and>
             cv2_threshold cv en 0 255 THRESH_BINARY_OTSU = Inr out \<longrightarrow>
             preprocess_image cv img ptype = out))"
  proof (rule allI, rule impI)
    fix g
    assume g: "(if length (np_shape cv img) = 3 then cv2_cvtColor cv img COLOR_BGR2GRAY else Inr img) = Inr g"
    show "((\<forall>e. cv2_Canny cv g 50 150 3 = Inl e \<longrightarrow> deskew_image cv g = Inl e) \<and>
           (\<forall>ed e. cv2_Canny cv g 50 150 3 = Inr ed \<and>
          cv2_HoughLines cv ed 1 (pi / 180) 100 = Inl e \<longrightarrow> deskew_image cv g = Inl e) \<and>
           (\<forall>ed ls. cv2_Canny cv g 50 150 3 = Inr ed \<and>
          cv2_HoughLines cv ed 1 (pi / 180) 100 = Inr (Some ls) \<and> accepted_angles ls \<noteq> [] \<and>
          (\<forall>h w. np_shape cv g \<noteq> [h, w]) \<longrightarrow> deskew_image cv g = Inl unpack_error) \<and>
           (\<forall>ed ls h w e. cv2_Canny cv g 50 150 3 = Inr ed \<and>
          cv2_HoughLines cv ed 1 (pi / 180) 100 = Inr (Some ls) \<and> accepted_angles ls \<noteq> [] \<and>
          np_shape cv g = [h, w] \<and>
          cv2_warpAffine cv g
            (getRotationMatrix2D (w div 2, h div 2) (np_median (accepted_angles ls)) 1) (w, h)
            INTER_CUBIC BORDER_REPLICATE = Inl e \<longrightarrow> deskew_image cv g = Inl e)) \<and>
      (ptype = ustr ''scanned_document'' \<longrightarrow>
          (\<forall>e. deskew_image cv g = Inl e \<longrightarrow>
             preprocess_image cv img ptype = img) \<and>
          (\<forall>ds e. deskew_image cv g = Inr ds \<and>
             cv2_morphologyEx cv ds MORPH_CLOSE (Ones 1 1) = Inl e \<longrightarrow>
             preprocess_image cv img ptype = img) \<and>
          (\<forall>ds cl e. deskew_image cv g = Inr ds \<and>
             cv2_morphologyEx cv ds MORPH_CLOSE (Ones 1 1) = Inr cl \<and>
             cv2_medianBlur cv cl 3 = Inl e \<longrightarrow>
             preprocess_image cv img ptype = img) \<and>
          (\<forall>ds cl bl e. deskew_image cv g = Inr ds \<and>
             cv2_morphologyEx cv ds MORPH_CLOSE (Ones 1 1) = Inr cl \<and>
             cv2_medianBlur cv cl 3 = Inr bl \<and>
             cv2_adaptiveThreshold cv bl 255 ADAPTIVE_THRESH_GAUSSIAN_C THRESH_BINARY 11 2 = Inl e \<longrightarrow>
             preprocess_image cv img ptype = img) \<and>
          (\<forall>ds cl bl out. deskew_image cv g = Inr ds \<and>
             cv2_morphologyEx cv ds MORPH_CLOSE (Ones 1 1) = Inr cl \<and>
             cv2_medianBlur cv cl 3 = Inr bl \<and>
             cv2_adaptiveThreshold cv bl 255 ADAPTIVE_THRESH_GAUSSIAN_C THRESH_BINARY 11 2 = Inr out \<longrightarrow>
             preprocess_image cv img ptype = out)) \<and>
      (ptype = ustr ''photo_document'' \<longrightarrow>
          (\<forall>e. cv2_dilate cv g (Ones 7 7) = Inl e \<longrightarrow>
             preprocess_image cv img ptype = img) \<and>
          (\<forall>dl e. cv2_dilate cv g (Ones 7 7) = Inr dl \<and>
             cv2_medianBlur cv dl 21 = Inl e \<longrightarrow>
             preprocess_image cv img ptype = img) \<and>
          (\<forall>dl bg e. cv2_dilate cv g (Ones 7 7) = Inr dl \<and>
             cv2_medianBlur cv dl 21 = Inr bg \<and>
             cv2_absdiff cv g bg = Inl e \<longrightarrow>
             preprocess_image cv img ptype = img) \<and>
          (\<forall>dl bg df e. cv2_dilate cv g (Ones 7 7) = Inr dl \<and>
             cv2_medianBlur cv dl 21 = Inr bg \<and>
             cv2_absdiff cv g bg = Inr df \<and>
             np_rsub cv 255 df = Inl e \<longrightarrow>
             preprocess_image cv img ptype = img) \<and>
          (\<forall>dl bg df iv e. cv2_dilate cv g (Ones 7 7) = Inr dl \<and>
             cv2_medianBlur cv dl 21 = Inr bg \<and>
             cv2_absdiff cv g bg = Inr df \<and>
             np_rsub cv 255 df = Inr iv \<and>
             cv2_normalize cv iv 0 255 = Inl e \<longrightarrow>
             preprocess_image cv img ptype = img) \<and>
          (\<forall>dl bg df iv sf e. cv2_dilate cv g (Ones 7 7) = Inr dl \<and>
             cv2_medianBlur cv dl 21 = Inr bg \<and>
             cv2_absdiff cv g bg = Inr df \<and>
             np_rsub cv 255 df = Inr iv \<and>
             cv2_normalize cv iv 0 255 = Inr sf \<and>
             cv2_clahe_apply cv 3 (8, 8) sf = Inl e \<longrightarrow>
             preprocess_image cv img ptype = img) \<and>
          (\<forall>dl bg df iv sf en e. cv2_dilate cv g (Ones 7 7) = Inr dl \<and>
             cv2_medianBlur cv dl 21 = Inr bg \<and>
             cv2_absdiff cv g bg = Inr df \<and>
             np_rsub cv 255 df = Inr iv \<and>
             cv2_normalize cv iv 0 255 = Inr sf \<and>
             cv2_clahe_apply cv 3 (8, 8) sf = Inr en \<and>
             cv2_filter2D cv en (- 1) (Matrix [[- 1, - 1, - 1], [- 1, 9, - 1], [- 1, - 1, - 1]]) = Inl e \<longrightarrow>
             preprocess_image cv img ptype = img) \<and>
          (\<forall>dl bg df iv sf en sh e. cv2_dilate cv g (Ones 7 7) = Inr dl \<and>
             cv2_medianBlur cv dl 21 = Inr bg \<and>
             cv2_absdiff cv g bg = Inr df \<and>
             np_rsub cv 255 df = Inr iv \<and>
             cv2_normalize cv iv 0 255 = Inr sf \<and>
             cv2_clahe_apply cv 3 (8, 8) sf = Inr en \<and>
             cv2_filter2D cv en (- 1) (Matrix [[- 1, - 1, - 1], [- 1, 9, - 1], [- 1, - 1, - 1]]) = Inr sh \<and>
             cv2_threshold cv sh 0 255 THRESH_BINARY_OTSU = Inl e \<longrightarrow>
             preprocess_image cv img ptype = img) \<and>
          (\<forall>dl bg df iv sf en sh out. cv2_dilate cv g (Ones 7 7) = Inr dl \<and>
             cv2_medianBlur cv dl 21 = Inr bg \<and>
             cv2_absdiff cv g bg = Inr df \<and>
             np_rsub cv 255 df = Inr iv \<and>
             cv2_normalize cv iv 0 255 = Inr sf \<and>
             cv2_clahe_apply cv 3 (8, 8) sf = Inr en \<and>
             cv2_filter2D cv en (- 1) (Matrix [[- 1, - 1, - 1], [- 1, 9, - 1], [- 1, - 1, - 1]]) = Inr sh \<and>
             cv2_threshold cv sh 0 255 THRESH_BINARY_OTSU = Inr out \<longrightarrow>
             preprocess_image cv img ptype = out)) \<and>
      (ptype = ustr ''low_quality'' \<longrightarrow>
          (\<forall>e. cv2_resize cv g 2 2 INTER_CUBIC = Inl e \<longrightarrow>
             preprocess_image cv img ptype = img) \<and>
          (\<forall>up e. cv2_resize cv g 2 2 INTER_CUBIC = Inr up \<and>
             cv2_fastNlMeansDenoising cv up 10 7 21 = Inl e \<longrightarrow>
             preprocess_image cv img ptype = img) \<and>
          (\<forall>up dn e. cv2_resize cv g 2 2 INTER_CUBIC = Inr up \<and>
             cv2_fastNlMeansDenoising cv up 10 7 21 = Inr dn \<and>
             cv2_filter2D cv dn (- 1) (Matrix [[0, - 1, 0], [- 1, 5, - 1], [0, - 1, 0]]) = Inl e \<longrightarrow>
             preprocess_image cv img ptype = img) \<and>
          (\<forall>up dn sh e. cv2_resize cv g 2 2 INTER_CUBIC = Inr up \<and>
             cv2_fastNlMeansDenoising cv up 10 7 21 = Inr dn \<and>
             cv2_filter2D cv dn (- 1) (Matrix [[0, - 1, 0], [- 1, 5, - 1], [0, - 1, 0]]) = Inr sh \<and>
             cv2_clahe_apply cv 4 (8, 8) sh = Inl e \<longrightarrow>
             preprocess_image cv img ptype = img) \<and>
          (\<forall>up dn sh en e. cv2_resize cv g 2 2 INTER_CUBIC = Inr up \<and>
             cv2_fastNlMeansDenoising cv up 10 7 21 = Inr dn \<and>
             cv2_filter2D cv dn (- 1) (Matrix [[0, - 1, 0], [- 1, 5, - 1], [0, - 1, 0]]) = Inr sh \<and>
             cv2_clahe_apply cv 4 (8, 8) sh = Inr en \<and>
             cv2_threshold cv en 0 255 THRESH_BINARY_OTSU = Inl e \<longrightarrow>
             preprocess_image cv img ptype = img) \<and>
          (\<forall>up dn sh en out. cv2_resize cv g 2 2 INTER_CUBIC = Inr up \<and>
             cv2_fastNlMeansDenoising cv up 10 7 21 = Inr dn \<and>
             cv2_filter2D cv dn (- 1) (Matrix [[0, - 1, 0], [- 1, 5, - 1], [0, - 1, 0]]) = Inr sh \<and>
             cv2_clahe_apply cv 4 (8, 8) sh = Inr en \<and>
             cv2_threshold cv en 0 255 THRESH_BINARY_OTSU = Inr out \<longrightarrow>
             preprocess_image cv img ptype = out)) \<and>
      (ptype = ustr ''handwritten'' \<longrightarrow>
          (\<forall>e. cv2_bilateralFilter cv g 9 75 75 = Inl e \<longrightarrow>
             preprocess_image cv img ptype = img) \<and>
          (\<forall>dn e. cv2_bilateralFilter cv g 9 75 75 = Inr dn \<and>
             cv2_morphologyEx cv dn MORPH_CLOSE (StructuringElement MORPH_ELLIPSE 2 2) = Inl e \<longrightarrow>
             preprocess_image cv img ptype = img) \<and>
          (\<forall>dn mo e. cv2_bilateralFilter cv g 9 75 75 = Inr dn \<and>
             cv2_morphologyEx cv dn MORPH_CLOSE (StructuringElement MORPH_ELLIPSE 2 2) = Inr mo \<and>
             cv2_adaptiveThreshold cv mo 255 ADAPTIVE_THRESH_GAUSSIAN_C THRESH_BINARY 15 10 = Inl e \<longrightarrow>
             preprocess_image cv img ptype = img) \<and>
          (\<forall>dn mo out. cv2_bilateralFilter cv g 9 75 75 = Inr dn \<and>
             cv2_morphologyEx cv dn MORPH_CLOSE (StructuringElement MORPH_ELLIPSE 2 2) = Inr mo \<and>
             cv2_adaptiveThreshold cv mo 255 ADAPTIVE_THRESH_GAUSSIAN_C THRESH_BINARY 15 10 = Inr out \<longrightarrow>
             preprocess_image cv img ptype = out)) \<and>
      (ptype \<noteq> ustr ''scanned_document'' \<and> ptype \<noteq> ustr ''photo_document'' \<and> ptype \<noteq> ustr ''low_quality'' \<and> ptype \<noteq> ustr ''handwritten'' \<longrightarrow>
          (\<forall>e. cv2_medianBlur cv g 3 = Inl e \<longrightarrow>
             preprocess_image cv img ptype = img) \<and>
          (\<forall>dn e. cv2_medianBlur cv g 3 = Inr dn \<and>
             cv2_clahe_apply cv 2 (8, 8) dn = Inl e \<longrightarrow>
             preprocess_image cv img ptype = img) \<and>
          (\<forall>dn en e. cv2_medianBlur cv g 3 = Inr dn \<and>
             cv2_clahe_apply cv 2 (8, 8) dn = Inr en \<and>
             cv2_threshold cv en 0 255 THRESH_BINARY_OTSU = Inl e \<longrightarrow>
             preprocess_image cv img ptype = img) \<and>
          (\<forall>dn en out. cv2_medianBlur cv g 3 = Inr dn \<and>
             cv2_clahe_apply cv 2 (8, 8) dn = Inr en \<and>
             cv2_threshold cv en 0 255 THRESH_BINARY_OTSU = Inr out \<longrightarrow>
             preprocess_image cv img ptype = out))"
      apply (rule conjI, rule deskew_image_steps)
      apply (rule conjI, rule profile_scanned_document [OF g])
      apply (rule conjI, rule profile_photo_document [OF g])
      apply (rule conjI, rule profile_low_quality [OF g])
      apply (rule conjI, rule profile_handwritten [OF g])
      apply (rule profile_default [OF g])
      done
  qed
  show ?thesis
    by (rule conjI [OF a conjI [OF b conjI [OF c d]]])
qed

theorem preprocess_image_never_raises_witness:
  "cv2_adaptiveThreshold (sim_cv2_failing None ''adaptiveThreshold'') (Pixels [2, 2]) 255
     ADAPTIVE_THRESH_GAUSSIAN_C THRESH_BINARY 15 10 = Inl cv2_error \<and>
   preprocess_image (sim_cv2_failing None ''adaptiveThreshold'') (Pixels [2, 2])
     (ustr ''handwritten'') = Pixels [2, 2] \<and>
   preprocess_image (sim_cv2_failing (Some [(0, pi / 2)]) ''warpAffine'') (Pixels [2, 2, 3])
     (ustr ''scanned_document'') = Pixels [2, 2, 3] \<and>
   preprocess_image (sim_cv2_failing (Some [(0, pi / 2)]) ''nothing'') (Pixels [2, 2])
     (ustr ''scanned_document'') =
     Warped (Pixels [2, 2]) (getRotationMatrix2D (1, 1) 0 1) (2, 2) INTER_CUBIC BORDER_REPLICATE"
proof -
  let ?A = "sim_cv2_failing None ''adaptiveThreshold''"
  let ?W = "sim_cv2_failing (Some [(0, pi / 2)]) ''warpAffine''"
  let ?N = "sim_cv2_failing (Some [(0, pi / 2)]) ''nothing''"
  let ?g = "Pixels [2, 2]"
  let ?rot = "getRotationMatrix2D (1, 1) 0 1"
  have acc: "accepted_angles [(0, pi / 2)] = [0]"
    by (simp add: Let_def)
  have med: "np_median [0] = 0"
    by (simp add: np_median_def Let_def)
  have grayA: "(if length (np_shape ?A ?g) = 3 then cv2_cvtColor ?A ?g COLOR_BGR2GRAY
                else Inr ?g) = Inr ?g"
    and grayN: "(if length (np_shape ?N ?g) = 3 then cv2_cvtColor ?N ?g COLOR_BGR2GRAY
                else Inr ?g) = Inr ?g"
    and grayW: "(if length (np_shape ?W (Pixels [2, 2, 3])) = 3
                then cv2_cvtColor ?W (Pixels [2, 2, 3]) COLOR_BGR2GRAY
                else Inr (Pixels [2, 2, 3])) = Inr (Pixels [2, 2, 3])"
    by (simp_all add: sim_cv2_failing_def sim_step_def)
  have stepsA: "cv2_bilateralFilter ?A ?g 9 75 75 = Inr ?g \<and>
      cv2_morphologyEx ?A ?g MORPH_CLOSE (StructuringElement MORPH_ELLIPSE 2 2) = Inr ?g \<and>
      cv2_adaptiveThreshold ?A ?g 255 ADAPTIVE_THRESH_GAUSSIAN_C THRESH_BINARY 15 10 =
        Inl cv2_error"
    by (simp add: sim_cv2_failing_def sim_step_def)
  note dA = preprocess_image_never_raises [of ?A ?g "ustr ''handwritten''",
      THEN conjunct2, THEN conjunct2, THEN conjunct2, THEN spec, THEN mp, OF grayA]
  note hw = dA [THEN conjunct2, THEN conjunct2, THEN conjunct2, THEN conjunct2, THEN conjunct1,
      THEN mp, OF refl]
  have 1: "preprocess_image ?A ?g (ustr ''handwritten'') = ?g"
    by (rule hw [THEN conjunct2, THEN conjunct2, THEN conjunct1, rule_format, OF stepsA])
  have stepsW: "cv2_Canny ?W (Pixels [2, 2, 3]) 50 150 3 = Inr (Pixels [2, 2, 3]) \<and>
      cv2_HoughLines ?W (Pixels [2, 2, 3]) 1 (pi / 180) 100 = Inr (Some [(0, pi / 2)]) \<and>
      accepted_angles [(0, pi / 2)] \<noteq> [] \<and> (\<forall>h w. np_shape ?W (Pixels [2, 2, 3]) \<noteq> [h, w])"
    by (simp add: sim_cv2_failing_def sim_step_def acc)
  note dW = preprocess_image_never_raises [of ?W "Pixels [2, 2, 3]" "ustr ''scanned_document''",
      THEN conjunct2, THEN conjunct2, THEN conjunct2, THEN spec, THEN mp, OF grayW]
  have deskW: "deskew_image ?W (Pixels [2, 2, 3]) = Inl unpack_error"
    by (rule dW [THEN conjunct1, THEN conjunct2, THEN conjunct2, THEN conjunct1, rule_format,
          OF stepsW])
  have 2: "preprocess_image ?W (Pixels [2, 2, 3]) (ustr ''scanned_document'') = Pixels [2, 2, 3]"
    by (rule dW [THEN conjunct2, THEN conjunct1, THEN mp, OF refl, THEN conjunct1, rule_format,
          OF deskW])
  have deskN: "deskew_image ?N ?g = Inr (Warped ?g ?rot (2, 2) INTER_CUBIC BORDER_REPLICATE)"
    by (simp add: deskew_image_def sim_cv2_failing_def sim_step_def acc med Let_def)
  have stepsN: "deskew_image ?N ?g = Inr (Warped ?g ?rot (2, 2) INTER_CUBIC BORDER_REPLICATE) \<and>
      cv2_morphologyEx ?N (Warped ?g ?rot (2, 2) INTER_CUBIC BORDER_REPLICATE) MORPH_CLOSE
        (Ones 1 1) = Inr (Warped ?g ?rot (2, 2) INTER_CUBIC BORDER_REPLICATE) \<and>
      cv2_medianBlur ?N (Warped ?g ?rot (2, 2) INTER_CUBIC BORDER_REPLICATE) 3 =
        Inr (Warped ?g ?rot (2, 2) INTER_CUBIC BORDER_REPLICATE) \<and>
      cv2_adaptiveThreshold ?N (Warped ?g ?rot (2, 2) INTER_CUBIC BORDER_REPLICATE) 255
        ADAPTIVE_THRESH_GAUSSIAN_C THRESH_BINARY 11 2 =
        Inr (Warped ?g ?rot (2, 2) INTER_CUBIC BORDER_REPLICATE)"
    by (simp add: deskN) (simp add: sim_cv2_failing_def sim_step_def)
  note dN = preprocess_image_never_raises [of ?N ?g "ustr ''scanned_document''",
      THEN conjunct2, THEN conjunct2, THEN conjunct2, THEN spec, THEN mp, OF grayN]
  have 3: "preprocess_image ?N ?g (ustr ''scanned_document'') =
      Warped ?g ?rot (2, 2) INTER_CUBIC BORDER_REPLICATE"
    by (rule dN [THEN conjunct2, THEN conjunct1, THEN mp, OF refl, THEN conjunct2,
          THEN conjunct2, THEN conjunct2, THEN conjunct2, rule_format, OF stepsN])
  show ?thesis
    using 1 2 3 stepsA by simp
qed

subsection \<open>OCR text extraction never raises\<close>

lemma filter_by_confidence_raises:
  "\<exists>j < length cs. length texts \<le> i + j \<and> thr < of_int (cs ! j) \<Longrightarrow>
   filter_by_confidence thr texts i cs = Inl index_error"
proof (induction cs arbitrary: i)
  case Nil
  then show ?case by simp
next
  case (Cons c cs)
  then obtain j where j: "j < length (c # cs)" "length texts \<le> i + j" "thr < of_int ((c # cs) ! j)"
    by blast
  show ?case
  proof (cases "thr < of_int c \<and> \<not> i < length texts")
    case True
    then show ?thesis by simp
  next
    case False
    with j have "j \<noteq> 0"
      by (cases j) auto
    then obtain j' where j': "j = Suc j'"
      by (cases j) auto
    with j have "\<exists>j < length cs. length texts \<le> Suc i + j \<and> thr < of_int (cs ! j)"
      by auto
    then have "filter_by_confidence thr texts (Suc i) cs = Inl index_error"
      by (rule Cons.IH)
    then show ?thesis
      using False by (simp add: Let_def)
  qed
qed

text \<open>
  C6. \<open>extract_text\<close> returns a dictionary for every library behaviour and input.
  When a step of its \<open>try\<close> block raises an exception \<open>e\<close>, the text of the result is
  empty, its confidence is 0 and its \<open>error\<close> is \<open>str(e)\<close>: so it is when the
  conversion to an array, the colour conversion, the conversion back to a PIL image or
  the recognition pass \<open>image_to_data\<close> raises after the steps before it returned,
  and when the filtering loop reads a text that the data does not have.
\<close>

theorem extract_text_never_raises:
  "(let r = extract_text cv im pil config_type language preprocessing thr;
        config = dict_get ocr_configs config_type (ustr ''--oem 3 --psm 6'');
        lang = dict_get languages language (ustr ''eng'')
    in
    (\<forall>e. extract_text_try cv im pil config_type language preprocessing thr = Inl e \<longrightarrow>
       res_text r = [] \<and> res_confidence r = 0 \<and> res_error r = Some (str_of_exn e)) \<and>
    (\<forall>e. np_array im pil = Inl e \<longrightarrow>
       res_text r = [] \<and> res_confidence r = 0 \<and> res_error r = Some (str_of_exn e)) \<and>
    (\<forall>a e. np_array im pil = Inr a \<and> length (np_shape cv a) = 3 \<and>
       cv2_cvtColor cv a COLOR_RGB2BGR = Inl e \<longrightarrow>
       res_text r = [] \<and> res_confidence r = 0 \<and> res_error r = Some (str_of_exn e)) \<and>
    (\<forall>a b e. np_array im pil = Inr a \<and>
       (if length (np_shape cv a) = 3 then cv2_cvtColor cv a COLOR_RGB2BGR else Inr a) = Inr b \<and>
       Image_fromarray im (preprocess_image cv b preprocessing) = Inl e \<longrightarrow>
       res_text r = [] \<and> res_confidence r = 0 \<and> res_error r = Some (str_of_exn e)) \<and>
    (\<forall>a b pim e. np_array im pil = Inr a \<and>
       (if length (np_shape cv a) = 3 then cv2_cvtColor cv a COLOR_RGB2BGR else Inr a) = Inr b \<and>
       Image_fromarray im (preprocess_image cv b preprocessing) = Inr pim \<and>
       image_to_data im pim config lang = Inl e \<longrightarrow>
       res_text r = [] \<and> res_confidence r = 0 \<and> res_error r = Some (str_of_exn e)) \<and>
    (\<forall>a b pim d i. np_array im pil = Inr a \<and>
       (if length (np_shape cv a) = 3 then cv2_cvtColor cv a COLOR_RGB2BGR else Inr a) = Inr b \<and>
       Image_fromarray im (preprocess_image cv b preprocessing) = Inr pim \<and>
       image_to_data im pim config lang = Inr d \<and>
       i < length (tess_conf d) \<and> length (tess_text d) \<le> i \<and>
       thr < of_int (tess_conf d ! i) \<longrightarrow>
       res_text r = [] \<and> res_confidence r = 0 \<and>
       res_error r = Some (str_of_exn index_error)))"
proof -
  have loop: "filter_by_confidence thr (tess_text d) 0 (tess_conf d) = Inl index_error"
    if "i < length (tess_conf d)" "length (tess_text d) \<le> i" "thr < of_int (tess_conf d ! i)"
    for d i
    using that by (intro filter_by_confidence_raises) auto
  show ?thesis
    unfolding Let_def
  proof (intro conjI allI impI)
    fix a b pim d i
    assume h: "np_array im pil = Inr a \<and>
       (if length (np_shape cv a) = 3 then cv2_cvtColor cv a COLOR_RGB2BGR else Inr a) = Inr b \<and>
       Image_fromarray im (preprocess_image cv b preprocessing) = Inr pim \<and>
       image_to_data im pim (dict_get ocr_configs config_type (ustr ''--oem 3 --psm 6''))
         (dict_get languages language (ustr ''eng'')) = Inr d \<and>
       i < length (tess_conf d) \<and> length (tess_text d) \<le> i \<and>
       thr < of_int (tess_conf d ! i)"
    then have l: "filter_by_confidence thr (tess_text d) 0 (tess_conf d) = Inl index_error"
      using loop by blast
    have "extract_text cv im pil config_type language preprocessing thr =
          error_result index_error"
      using h by (simp add: extract_text_def extract_text_try_def l)
    then show "res_text (extract_text cv im pil config_type language preprocessing thr) = []"
      "res_confidence (extract_text cv im pil config_type language preprocessing thr) = 0"
      "res_error (extract_text cv im pil config_type language preprocessing thr) =
         Some (str_of_exn index_error)"
      by (simp_all add: error_result_def)
  qed (simp_all add: extract_text_def extract_text_try_def error_result_def)
qed

theorem extract_text_never_raises_witness:
  "extract_text_try (sim_cv2 None False) (sim_imaging None None) (Pixels [2, 2])
     (ustr ''default'') (ustr ''english'') (ustr ''default'') 0 = Inl tesseract_error \<and>
   extract_text (sim_cv2 None False) (sim_imaging None None) (Pixels [2, 2])
     (ustr ''default'') (ustr ''english'') (ustr ''default'') 0 =
     \<lparr>res_text = [], res_confidence = 0, res_word_confidences = None,
      res_preprocessing_used = None, res_config_used = None, res_language_used = None,
      res_error = Some (ustr ''TesseractError'')\<rparr> \<and>
   res_error (extract_text (sim_cv2 None False)
      (sim_imaging None (Some \<lparr>tess_conf = [90, 80], tess_text = [ustr ''only'']\<rparr>))
      (Pixels [2, 2]) (ustr ''default'') (ustr ''english'') (ustr ''default'') 0) =
     Some (ustr ''list index out of range'')"
proof -
  let ?cv = "sim_cv2 None False"
  let ?d = "\<lparr>tess_conf = [90, 80], tess_text = [ustr ''only'']\<rparr>"
  have p: "preprocess_image ?cv (Pixels [2, 2]) (ustr ''default'') = Pixels [2, 2]"
    by (simp add: preprocess_image_def preprocess_image_try_def preprocess_default_def
        sim_cv2_def ustr_def)
  have steps: "np_array (sim_imaging x y) (Pixels [2, 2]) = Inr (Pixels [2, 2])"
    "(if length (np_shape ?cv (Pixels [2, 2])) = 3
      then cv2_cvtColor ?cv (Pixels [2, 2]) COLOR_RGB2BGR else Inr (Pixels [2, 2])) =
     Inr (Pixels [2, 2])"
    "Image_fromarray (sim_imaging x y) (preprocess_image ?cv (Pixels [2, 2]) (ustr ''default'')) =
     Inr (Pixels [2, 2])"
    "image_to_data (sim_imaging x None) (Pixels [2, 2]) c l = Inl tesseract_error"
    "image_to_data (sim_imaging x (Some d)) (Pixels [2, 2]) c l = Inr d"
    for x y c l d
    by (simp_all add: p sim_imaging_def, simp add: sim_cv2_def)
  have t: "extract_text_try ?cv (sim_imaging None None) (Pixels [2, 2])
     (ustr ''default'') (ustr ''english'') (ustr ''default'') 0 = Inl tesseract_error"
    by (simp add: extract_text_try_def steps)
  have i: "(1::nat) < length (tess_conf ?d) \<and> length (tess_text ?d) \<le> 1 \<and>
           (0::rat) < of_int (tess_conf ?d ! 1)"
    by simp
  note w1 = extract_text_never_raises [of ?cv "sim_imaging None None" "Pixels [2, 2]"
      "ustr ''default''" "ustr ''english''" "ustr ''default''" 0, unfolded Let_def]
  note w2 = extract_text_never_raises [of ?cv "sim_imaging None (Some ?d)" "Pixels [2, 2]"
      "ustr ''default''" "ustr ''english''" "ustr ''default''" 0, unfolded Let_def]
  have a: "res_error (extract_text ?cv (sim_imaging None (Some ?d))
      (Pixels [2, 2]) (ustr ''default'') (ustr ''english'') (ustr ''default'') 0) =
     Some (str_of_exn index_error)"
    using w2 [THEN conjunct2, THEN conjunct2, THEN conjunct2, THEN conjunct2, THEN conjunct2,
        rule_format, where a = "Pixels [2, 2]" and b = "Pixels [2, 2]" and pim = "Pixels [2, 2]"
        and d = ?d and i = 1]
    by (simp add: steps)
  have b: "res_text (extract_text ?cv (sim_imaging None None) (Pixels [2, 2])
      (ustr ''default'') (ustr ''english'') (ustr ''default'') 0) = [] \<and>
     res_error (extract_text ?cv (sim_imaging None None) (Pixels [2, 2])
      (ustr ''default'') (ustr ''english'') (ustr ''default'') 0) = Some (str_of_exn tesseract_error)"
    using w1 [THEN conjunct1, rule_format, OF t] by simp
  show ?thesis
    using a b t
    by (simp add: extract_text_def error_result_def tesseract_error_def index_error_def)
qed

subsection \<open>OCR failures inside an image file\<close>

text \<open>
  C10. For a file with an image extension processed with OCR enabled, when \<open>Image.open\<close>
  succeeds and a step inside \<open>_ocr_image\<close> raises, \<open>_ocr_image\<close> returns the empty
  string and \<open>process_file\<close> raises the no-content \<open>ValueError\<close>: the same outcome as
  for an image file on which OCR succeeds with nothing but white space.
\<close>

theorem ocr_failure_surfaces_as_no_content:
  assumes "map_of supported_formats (file_extension f) = Some IMAGE"
    and "Image_open im f = Inr pil"
    and "ocr_image_try cv im pil = Inl e"
  shows "ocr_image cv im pil = [] \<and>
         process_file cv im sv f True chunk_size chunk_overlap = Inl no_content \<and>
         (\<forall>cv' im' f' pil'.
            map_of supported_formats (file_extension f') = Some IMAGE \<and>
            Image_open im' f' = Inr pil' \<and> ocr_image_try cv' im' pil' = Inr [] \<longrightarrow>
            process_file cv' im' sv f' True chunk_size chunk_overlap =
            process_file cv im sv f True chunk_size chunk_overlap)"
  using assms
  by (simp add: process_file_def run_extractor_def process_image_def ocr_image_def strip_def)


lemma ext_png: "file_extension (upload (ustr ''scan.PNG'') bs) = ustr ''png''"
  by (simp add: file_extension_def upload_def ustr_def lower_def lower_cp_def)

lemma fmt_png: "map_of supported_formats (ustr ''png'') = Some IMAGE"
  by (simp add: supported_formats_def ustr_def)

theorem ocr_failure_surfaces_as_no_content_witness:
  "map_of supported_formats (file_extension (upload (ustr ''scan.PNG'') [1, 2])) = Some IMAGE \<and>
   ocr_image_try (sim_cv2 None True) (sim_imaging (Some (ustr ''text'')) None) (Pixels [2, 1]) = Inl cv2_error \<and>
   ocr_image_try (sim_cv2 None False) (sim_imaging (Some (ustr '' '')) None) (Pixels [2, 1]) = Inr [] \<and>
   process_file (sim_cv2 None True) (sim_imaging (Some (ustr ''text'')) None) sim_services
     (upload (ustr ''scan.PNG'') [1, 2]) True 1000 200 = Inl no_content \<and>
   process_file (sim_cv2 None False) (sim_imaging (Some (ustr '' '')) None) sim_services
     (upload (ustr ''scan.PNG'') [1, 2]) True 1000 200 = Inl no_content"
proof -
  let ?f = "upload (ustr ''scan.PNG'') [1, 2]"
  let ?im = "sim_imaging (Some (ustr ''text'')) None"
  let ?im' = "sim_imaging (Some (ustr '' '')) None"
  have 1: "map_of supported_formats (file_extension ?f) = Some IMAGE"
    by (simp add: ext_png fmt_png)
  have 2: "Image_open ?im ?f = Inr (Pixels [2, 1])" "Image_open ?im' ?f = Inr (Pixels [2, 1])"
    by (simp_all add: sim_imaging_def upload_def)
  have 3: "ocr_image_try (sim_cv2 None True) ?im (Pixels [2, 1]) = Inl cv2_error"
    by (simp add: ocr_image_try_def sim_imaging_def sim_cv2_def dp_preprocess_image_def)
  have 4: "ocr_image_try (sim_cv2 None False) ?im' (Pixels [2, 1]) = Inr []"
    by (simp add: ocr_image_try_def sim_imaging_def sim_cv2_def dp_preprocess_image_def
        strip_def ustr_def py_isspace_def)
  from ocr_failure_surfaces_as_no_content [OF 1 2(1) 3, of sim_services 1000 200] 1 2 3 4
  show ?thesis by metis
qed

subsection \<open>Batches of uploaded files\<close>

lemma process_each_Inr:
  "\<forall>f \<in> set files. \<not> isl (process_file cv im sv f ocr cs co) \<Longrightarrow>
   process_each cv im sv files ocr cs co =
     Inr (concat (map (\<lambda>f. projr (process_file cv im sv f ocr cs co)) files))"
proof (induction files)
  case Nil
  then show ?case by simp
next
  case (Cons f files)
  then show ?case
    by (cases "process_file cv im sv f ocr cs co") auto
qed

lemma process_each_first_failure:
  assumes "\<forall>g \<in> set before. \<not> isl (process_file cv im sv g ocr cs co)"
    and "process_file cv im sv f ocr cs co = Inl e"
  shows "process_each cv im sv (before @ f # rest) ocr cs co = Inl e"
  using assms
proof (induction before)
  case Nil
  then show ?case by simp
next
  case (Cons g before)
  then show ?case
    by (cases "process_file cv im sv g ocr cs co") auto
qed

lemma notes_ok:
  "process_file (sim_cv2 None False) (sim_imaging None None) sim_services notes_txt True 1000 200
     = Inr [notes_chunk]"
  by (simp add: process_file_def file_extension_def notes_txt_def upload_def ustr_def
      lower_def lower_cp_def supported_formats_def run_extractor_def process_txt_def read_def
      Let_def cons_cp_def strip_def py_isspace_def sim_services_def make_documents_def
      notes_chunk_def enumerate_eq_zip)

lemma xyz_fails:
  "process_file (sim_cv2 None False) (sim_imaging None None) sim_services scan_xyz True 1000 200
     = Inl (unsupported_format (ustr ''xyz''))"
  by (simp add: process_file_def file_extension_def scan_xyz_def upload_def ustr_def
      lower_def lower_cp_def supported_formats_def Let_def)


lemma empty_fails:
  "process_file (sim_cv2 None False) (sim_imaging None None) sim_services empty_txt True 1000 200
     = Inl no_content"
  by (simp add: process_file_def file_extension_def empty_txt_def upload_def ustr_def
      lower_def lower_cp_def supported_formats_def run_extractor_def process_txt_def read_def
      Let_def strip_def)

text \<open>
  C1, as stated, fails: \<open>notes.txt\<close> alone is processed into one chunk, and the
  zero-byte \<open>empty.txt\<close> raises the no-content error. A batch of the two, in either
  order, ends with that error shown and the session otherwise unchanged: no vector
  store is created and no file is recorded as processed.
\<close>

theorem batch_continues_counterexample:
  "process_file (sim_cv2 None False) (sim_imaging None None) sim_services notes_txt True 1000 200
     = Inr [notes_chunk] \<and>
   process_file (sim_cv2 None False) (sim_imaging None None) sim_services empty_txt True 1000 200
     = Inl no_content \<and>
   process_documents (sim_cv2 None False) (sim_imaging None None) sim_services
      empty_session [notes_txt, empty_txt] True 1000 200 =
     empty_session\<lparr>st_errors :=
       [ustr ''Error processing documents: No text content extracted from file'']\<rparr> \<and>
   process_documents (sim_cv2 None False) (sim_imaging None None) sim_services
      empty_session [empty_txt, notes_txt] True 1000 200 =
     empty_session\<lparr>st_errors :=
       [ustr ''Error processing documents: No text content extracted from file'']\<rparr> \<and>
   vectorstore (empty_session\<lparr>st_errors :=
       [ustr ''Error processing documents: No text content extracted from file'']\<rparr>) = None"
  by (simp add: notes_ok empty_fails process_documents_def empty_session_def
      no_content_def ustr_def)

text \<open>
  C1, amended. The batch is aborted by the first file on which \<open>process_file\<close> raises:
  when the files before it are processed and it raises \<open>e\<close>, the session is left as it
  was except that the error \<open>e\<close> is shown; the files after it are not looked at, no
  vector store is created, no file is recorded and no success is shown. When
  \<open>process_file\<close> raises on no file, the vector store is created from the chunks of
  all files in order, every file name is recorded and the success is shown; if the
  creation of the vector store raises, that error is shown instead.
\<close>

theorem process_documents_aborts_on_first_error:
  "(\<forall>before f rest e.
      files = before @ f # rest \<and>
      (\<forall>g \<in> set before. \<not> isl (process_file cv im sv g ocr cs co)) \<and>
      process_file cv im sv f ocr cs co = Inl e \<longrightarrow>
      process_documents cv im sv st files ocr cs co =
        st\<lparr>st_errors := st_errors st @
             [ustr ''Error processing documents: '' @ str_of_exn e]\<rparr>) \<and>
   ((\<forall>f \<in> set files. \<not> isl (process_file cv im sv f ocr cs co)) \<longrightarrow>
      (\<forall>vs. create_vectorstore sv
              (concat (map (\<lambda>f. projr (process_file cv im sv f ocr cs co)) files)) = Inr vs \<longrightarrow>
         process_documents cv im sv st files ocr cs co =
           st\<lparr>vectorstore := Some vs,
              processed_docs := processed_docs st @ map name files,
              st_successes := st_successes st @
                [success_message (length files)
                   (length (concat (map (\<lambda>f. projr (process_file cv im sv f ocr cs co))
                      files)))]\<rparr>) \<and>
      (\<forall>e. create_vectorstore sv
              (concat (map (\<lambda>f. projr (process_file cv im sv f ocr cs co)) files)) = Inl e \<longrightarrow>
         process_documents cv im sv st files ocr cs co =
           st\<lparr>st_errors := st_errors st @
                [ustr ''Error processing documents: '' @ str_of_exn e]\<rparr>))"
proof (intro conjI allI impI)
  fix before f rest e
  assume h: "files = before @ f # rest \<and>
      (\<forall>g \<in> set before. \<not> isl (process_file cv im sv g ocr cs co)) \<and>
      process_file cv im sv f ocr cs co = Inl e"
  then have "process_each cv im sv files ocr cs co = Inl e"
    using process_each_first_failure [of before cv im sv ocr cs co f e rest] by simp
  then show "process_documents cv im sv st files ocr cs co =
        st\<lparr>st_errors := st_errors st @
             [ustr ''Error processing documents: '' @ str_of_exn e]\<rparr>"
    by (simp add: process_documents_def)
next
  fix vs
  assume "\<forall>f \<in> set files. \<not> isl (process_file cv im sv f ocr cs co)"
    and "create_vectorstore sv
              (concat (map (\<lambda>f. projr (process_file cv im sv f ocr cs co)) files)) = Inr vs"
  then show "process_documents cv im sv st files ocr cs co =
           st\<lparr>vectorstore := Some vs,
              processed_docs := processed_docs st @ map name files,
              st_successes := st_successes st @
                [success_message (length files)
                   (length (concat (map (\<lambda>f. projr (process_file cv im sv f ocr cs co))
                      files)))]\<rparr>"
    by (simp add: process_documents_def process_each_Inr)
next
  fix e
  assume "\<forall>f \<in> set files. \<not> isl (process_file cv im sv f ocr cs co)"
    and "create_vectorstore sv
              (concat (map (\<lambda>f. projr (process_file cv im sv f ocr cs co)) files)) = Inl e"
  then show "process_documents cv im sv st files ocr cs co =
           st\<lparr>st_errors := st_errors st @
                [ustr ''Error processing documents: '' @ str_of_exn e]\<rparr>"
    by (simp add: process_documents_def process_each_Inr)
qed

theorem process_documents_aborts_on_first_error_witness:
  "st_errors (process_documents (sim_cv2 None False) (sim_imaging None None) sim_services
      empty_session [notes_txt, scan_xyz, empty_txt] True 1000 200) =
     [ustr ''Error processing documents: Unsupported file format: xyz''] \<and>
   st_errors (process_documents (sim_cv2 None False) (sim_imaging None None) sim_services
      empty_session [notes_txt, empty_txt, scan_xyz] True 1000 200) =
     [ustr ''Error processing documents: No text content extracted from file''] \<and>
   vectorstore (process_documents (sim_cv2 None False) (sim_imaging None None) sim_services
      empty_session [notes_txt, scan_xyz, empty_txt] True 1000 200) = None \<and>
   vectorstore (process_documents (sim_cv2 None False) (sim_imaging None None) sim_services
      empty_session [notes_txt, notes_txt] True 1000 200) = Some [notes_chunk, notes_chunk]"
proof -
  let ?cv = "sim_cv2 None False" and ?im = "sim_imaging None None"
  have store: "create_vectorstore sim_services ds = Inr ds" for ds
    by (simp add: create_vectorstore_def sim_services_def)
  have pre: "\<forall>g \<in> set [notes_txt].
      \<not> isl (process_file ?cv ?im sim_services g True 1000 200)"
    by (simp add: notes_ok)
  have all: "\<forall>g \<in> set [notes_txt, notes_txt].
      \<not> isl (process_file ?cv ?im sim_services g True 1000 200)"
    by (simp add: notes_ok)
  have 1: "process_documents ?cv ?im sim_services empty_session
        [notes_txt, scan_xyz, empty_txt] True 1000 200 =
      empty_session\<lparr>st_errors := st_errors empty_session @
        [ustr ''Error processing documents: '' @ str_of_exn (unsupported_format (ustr ''xyz''))]\<rparr>"
    using process_documents_aborts_on_first_error
      [of "[notes_txt, scan_xyz, empty_txt]" ?cv ?im sim_services True 1000 200 empty_session,
        THEN conjunct1, rule_format, of "[notes_txt]" scan_xyz "[empty_txt]"] pre xyz_fails
    by simp
  have 2: "process_documents ?cv ?im sim_services empty_session
        [notes_txt, empty_txt, scan_xyz] True 1000 200 =
      empty_session\<lparr>st_errors := st_errors empty_session @
        [ustr ''Error processing documents: '' @ str_of_exn no_content]\<rparr>"
    using process_documents_aborts_on_first_error
      [of "[notes_txt, empty_txt, scan_xyz]" ?cv ?im sim_services True 1000 200 empty_session,
        THEN conjunct1, rule_format, of "[notes_txt]" empty_txt "[scan_xyz]"] pre empty_fails
    by simp
  have 3: "vectorstore (process_documents ?cv ?im sim_services empty_session
        [notes_txt, notes_txt] True 1000 200) = Some [notes_chunk, notes_chunk]"
    using process_documents_aborts_on_first_error
      [of "[notes_txt, notes_txt]" ?cv ?im sim_services True 1000 200 empty_session,
        THEN conjunct2, THEN mp, OF all, THEN conjunct1, THEN spec,
        of "[notes_chunk, notes_chunk]"]
    by (simp add: notes_ok store)
  show ?thesis
    unfolding 1 2 using 3
    by (simp add: empty_session_def unsupported_format_def no_content_def ustr_def)
qed

subsection \<open>Token filtering in OCR text extraction\<close>

lemma filter_by_confidence_eq:
  "length cs + i \<le> length texts \<Longrightarrow>
   filter_by_confidence thr texts i cs =
     Inr (map (\<lambda>(c, t). (strip t, c))
            (filter (\<lambda>(c, t). of_int c > thr \<and> strip t \<noteq> []) (zip cs (drop i texts))))"
proof (induction cs arbitrary: i)
  case Nil
  show ?case by simp
next
  case (Cons c cs)
  then have i: "i < length texts" and rest: "length cs + Suc i \<le> length texts"
    by simp_all
  have d: "drop i texts = texts ! i # drop (Suc i) texts"
    using i by (simp add: Cons_nth_drop_Suc)
  show ?case
    using Cons.IH [OF rest] i by (simp add: d Let_def)
qed

lemma spec_sample:
  "spec_surviving 50 sample_data =
     [(95, ustr ''Hello''), (80, ustr ''  ''), (90, ustr ''world '')]"
  by (simp add: spec_surviving_def sample_data_def)

lemma sample_result:
  "extract_text (sim_cv2 None False) (sim_imaging None (Some sample_data))
      (Pixels [2, 2]) (ustr ''default'') (ustr ''english'') (ustr ''default'') 50 =
     \<lparr>res_text = ustr ''Hello world'',
      res_confidence = 185 / 2,
      res_word_confidences = Some [95, 90],
      res_preprocessing_used = Some (ustr ''default''),
      res_config_used = Some (ustr ''default''),
      res_language_used = Some (ustr ''english''),
      res_error = None\<rparr>"
proof -
  have p: "preprocess_image (sim_cv2 None False) (Pixels [2, 2]) (ustr ''default'') = Pixels [2, 2]"
    by (simp add: preprocess_image_def preprocess_image_try_def preprocess_default_def
        sim_cv2_def ustr_def)
  have sh: "np_shape (sim_cv2 None False) (Pixels [2, 2]) = [2, 2]"
    by (simp add: sim_cv2_def)
  have f: "filter_by_confidence 50 (tess_text sample_data) 0 (tess_conf sample_data) =
      Inr [(ustr ''Hello'', 95), (ustr ''world'', 90)]"
    by (simp add: sample_data_def strip_def ustr_def py_isspace_def Let_def)
  show ?thesis
    by (simp add: extract_text_def extract_text_try_def sim_imaging_def p sh f np_mean_def)
      (simp add: ustr_def)
qed

text \<open>
  C5, as stated, fails: of five tokens with the confidences -1, 95, 40, 80 and 90, the
  fourth being blank and the fifth ending in a space, three are above the threshold 50.
  Joining the texts of the three with single spaces, and averaging their confidences,
  gives a text with the blank token in it and the mean 265/3; \<open>extract_text\<close> returns
  \<open>Hello world\<close> and the mean 185/2.
\<close>

theorem tokens_joined_counterexample:
  "res_text (extract_text (sim_cv2 None False) (sim_imaging None (Some sample_data))
      (Pixels [2, 2]) (ustr ''default'') (ustr ''english'') (ustr ''default'') 50) =
     ustr ''Hello world'' \<and>
   spec_text 50 sample_data = ustr ''Hello    world '' \<and>
   res_confidence (extract_text (sim_cv2 None False) (sim_imaging None (Some sample_data))
      (Pixels [2, 2]) (ustr ''default'') (ustr ''english'') (ustr ''default'') 50) = 185 / 2 \<and>
   spec_confidence 50 sample_data = 265 / 3 \<and>
   res_text (extract_text (sim_cv2 None False) (sim_imaging None (Some sample_data))
      (Pixels [2, 2]) (ustr ''default'') (ustr ''english'') (ustr ''default'') 50) \<noteq>
     spec_text 50 sample_data \<and>
   res_confidence (extract_text (sim_cv2 None False) (sim_imaging None (Some sample_data))
      (Pixels [2, 2]) (ustr ''default'') (ustr ''english'') (ustr ''default'') 50) \<noteq>
     spec_confidence 50 sample_data"
  by (simp add: sample_result spec_text_def spec_confidence_def spec_sample) (simp add: ustr_def)

text \<open>
  C5, amended. When the recognition pass returns its data (with a text for every
  confidence), a token survives when its confidence is above the threshold and its text
  is not blank: no token with a confidence at or below the threshold survives, and of
  the others those with a blank text are dropped as well. The text of the result is the
  stripped texts of the survivors joined with single spaces in layout order, and the
  confidence is the sum of their confidences divided by their number, or 0 when there
  is none.
\<close>

theorem extract_text_filters_tokens:
  assumes "np_array im pil = Inr a"
    and "(if length (np_shape cv a) = 3 then cv2_cvtColor cv a COLOR_RGB2BGR else Inr a) = Inr b"
    and "Image_fromarray im (preprocess_image cv b preprocessing) = Inr p2"
    and "image_to_data im p2 (dict_get ocr_configs config_type (ustr ''--oem 3 --psm 6''))
           (dict_get languages language (ustr ''eng'')) = Inr d"
    and "length (tess_conf d) \<le> length (tess_text d)"
  shows "res_text (extract_text cv im pil config_type language preprocessing thr) =
           join (ustr '' '') (map (\<lambda>(c, t). strip t) (kept_tokens thr d)) \<and>
         res_confidence (extract_text cv im pil config_type language preprocessing thr) =
           (if kept_tokens thr d = [] then 0
            else of_int (sum_list (map fst (kept_tokens thr d))) /
                 of_nat (length (kept_tokens thr d))) \<and>
         res_word_confidences (extract_text cv im pil config_type language preprocessing thr) =
           Some (map fst (kept_tokens thr d)) \<and>
         res_error (extract_text cv im pil config_type language preprocessing thr) = None \<and>
         (\<forall>(c, t) \<in> set (zip (tess_conf d) (tess_text d)).
            of_int c \<le> thr \<longrightarrow> (c, t) \<notin> set (kept_tokens thr d)) \<and>
         kept_tokens thr d = filter (\<lambda>(c, t). strip t \<noteq> []) (spec_surviving thr d)"
proof -
  let ?kept = "map (\<lambda>(c, t). (strip t, c)) (kept_tokens thr d)"
  have f: "filter_by_confidence thr (tess_text d) 0 (tess_conf d) = Inr ?kept"
    using assms(5) by (simp add: filter_by_confidence_eq kept_tokens_def)
  have m1: "map fst ?kept = map (\<lambda>(c, t). strip t) (kept_tokens thr d)"
    by (simp add: case_prod_beta comp_def)
  have m2: "map snd ?kept = map fst (kept_tokens thr d)"
    by (simp add: case_prod_beta comp_def)
  have r: "extract_text cv im pil config_type language preprocessing thr =
      \<lparr>res_text = join (ustr '' '') (map fst ?kept),
       res_confidence = (if map snd ?kept \<noteq> [] then np_mean (map snd ?kept) else 0),
       res_word_confidences = Some (map snd ?kept),
       res_preprocessing_used = Some preprocessing,
       res_config_used = Some config_type,
       res_language_used = Some language,
       res_error = None\<rparr>"
    using assms(1-4) by (simp add: extract_text_def extract_text_try_def f Let_def)
  have discard: "\<forall>(c, t) \<in> set (zip (tess_conf d) (tess_text d)).
            of_int c \<le> thr \<longrightarrow> (c, t) \<notin> set (kept_tokens thr d)"
    by (auto simp: kept_tokens_def)
  have rel: "kept_tokens thr d = filter (\<lambda>(c, t). strip t \<noteq> []) (spec_surviving thr d)"
    by (auto simp add: kept_tokens_def spec_surviving_def not_le intro: filter_cong)
  show ?thesis
    unfolding r m1 m2 using discard rel by (simp add: np_mean_def)
qed

lemma kept_sample:
  "kept_tokens 50 sample_data = [(95, ustr ''Hello''), (90, ustr ''world '')]"
  by (simp add: kept_tokens_def sample_data_def strip_def ustr_def py_isspace_def)

theorem extract_text_filters_tokens_witness:
  "res_text (extract_text (sim_cv2 None False) (sim_imaging None (Some sample_data))
      (Pixels [2, 2]) (ustr ''default'') (ustr ''english'') (ustr ''default'') 50) =
     ustr ''Hello world'' \<and>
   res_confidence (extract_text (sim_cv2 None False) (sim_imaging None (Some sample_data))
      (Pixels [2, 2]) (ustr ''default'') (ustr ''english'') (ustr ''default'') 50) = 185 / 2"
proof -
  let ?cv = "sim_cv2 None False"
  let ?im = "sim_imaging None (Some sample_data)"
  have 1: "np_array ?im (Pixels [2, 2]) = Inr (Pixels [2, 2])"
    by (simp add: sim_imaging_def)
  have 2: "(if length (np_shape ?cv (Pixels [2, 2])) = 3
            then cv2_cvtColor ?cv (Pixels [2, 2]) COLOR_RGB2BGR else Inr (Pixels [2, 2])) =
           Inr (Pixels [2, 2])"
    by (simp add: sim_cv2_def)
  have p: "preprocess_image ?cv (Pixels [2, 2]) (ustr ''default'') = Pixels [2, 2]"
    by (simp add: preprocess_image_def preprocess_image_try_def preprocess_default_def
        sim_cv2_def ustr_def)
  have 3: "Image_fromarray ?im (preprocess_image ?cv (Pixels [2, 2]) (ustr ''default'')) =
           Inr (Pixels [2, 2])"
    by (simp add: p sim_imaging_def)
  have 4: "image_to_data ?im (Pixels [2, 2])
             (dict_get ocr_configs (ustr ''default'') (ustr ''--oem 3 --psm 6''))
             (dict_get languages (ustr ''english'') (ustr ''eng'')) = Inr sample_data"
    by (simp add: sim_imaging_def)
  have 5: "length (tess_conf sample_data) \<le> length (tess_text sample_data)"
    by (simp add: sample_data_def)
  show ?thesis
    using extract_text_filters_tokens [OF 1 2 3 4 5, of 50]
    by (simp add: kept_sample strip_def ustr_def py_isspace_def)
qed


subsection \<open>Deskewing\<close>

lemma length_filter_mono:
  "(\<And>x. x \<in> set xs \<Longrightarrow> P x \<Longrightarrow> Q x) \<Longrightarrow> length (filter P xs) \<le> length (filter Q xs)"
  by (induction xs) auto

lemma count_below:
  fixes s :: "real list"
  assumes "sorted s" "k < length s"
  shows "Suc k \<le> length (filter (\<lambda>x. x \<le> s ! k) s)"
proof -
  have all: "\<forall>x \<in> set (take (Suc k) s). x \<le> s ! k"
  proof
    fix x assume "x \<in> set (take (Suc k) s)"
    then obtain i where "i < Suc k" "i < length s" "x = s ! i"
      by (auto simp: in_set_conv_nth)
    then show "x \<le> s ! k"
      using assms sorted_nth_mono [of s i k] by simp
  qed
  have "filter (\<lambda>x. x \<le> s ! k) s =
        filter (\<lambda>x. x \<le> s ! k) (take (Suc k) s) @ filter (\<lambda>x. x \<le> s ! k) (drop (Suc k) s)"
    by (metis append_take_drop_id filter_append)
  also have "filter (\<lambda>x. x \<le> s ! k) (take (Suc k) s) = take (Suc k) s"
    using all by (simp add: filter_id_conv)
  finally show ?thesis
    using assms(2) by simp
qed

lemma count_above:
  fixes s :: "real list"
  assumes "sorted s" "k < length s"
  shows "length s - k \<le> length (filter (\<lambda>x. s ! k \<le> x) s)"
proof -
  have all: "\<forall>x \<in> set (drop k s). s ! k \<le> x"
  proof
    fix x assume "x \<in> set (drop k s)"
    then obtain i where "i < length s - k" "x = s ! (k + i)"
      by (auto simp: in_set_conv_nth)
    then show "s ! k \<le> x"
      using assms sorted_nth_mono [of s k "k + i"] by simp
  qed
  have "filter (\<lambda>x. s ! k \<le> x) s =
        filter (\<lambda>x. s ! k \<le> x) (take k s) @ filter (\<lambda>x. s ! k \<le> x) (drop k s)"
    by (metis append_take_drop_id filter_append)
  also have "filter (\<lambda>x. s ! k \<le> x) (drop k s) = drop k s"
    using all by (simp add: filter_id_conv)
  finally show ?thesis
    by simp
qed

lemma length_filter_sort:
  fixes xs :: "real list"
  shows "length (filter P (sort xs)) = length (filter P xs)"
  by (simp add: filter_sort)

lemma np_median_is_median:
  assumes "xs \<noteq> []"
  shows "is_median (np_median xs) xs"
proof -
  let ?s = "sort xs"
  let ?n = "length xs"
  have n: "length ?s = ?n" "0 < ?n" and srt: "sorted ?s"
    using assms by simp_all
  show ?thesis
  proof (cases "odd ?n")
    case True
    then have m: "np_median xs = ?s ! (?n div 2)"
      by (simp add: np_median_def Let_def)
    have k: "?n div 2 < length ?s"
      using n by simp
    have "Suc (?n div 2) \<le> length (filter (\<lambda>x. x \<le> np_median xs) ?s)"
      unfolding m by (rule count_below [OF srt k])
    moreover have "length ?s - ?n div 2 \<le> length (filter (\<lambda>x. np_median xs \<le> x) ?s)"
      unfolding m by (rule count_above [OF srt k])
    ultimately show ?thesis
      using True by (simp add: is_median_def length_filter_sort) presburger
  next
    case False
    let ?k = "?n div 2"
    from False n have k: "?k < length ?s" "?k - 1 < length ?s" "0 < ?k" "?n = 2 * ?k"
      by (simp_all, presburger+)
    have m: "np_median xs = (?s ! (?k - 1) + ?s ! ?k) / 2"
      using False by (simp add: np_median_def Let_def)
    have le: "?s ! (?k - 1) \<le> ?s ! ?k"
      using sorted_nth_mono [OF srt, of "?k - 1" ?k] k by simp
    then have b: "?s ! (?k - 1) \<le> np_median xs" "np_median xs \<le> ?s ! ?k"
      by (simp_all add: m)
    have "Suc (?k - 1) \<le> length (filter (\<lambda>x. x \<le> ?s ! (?k - 1)) ?s)"
      by (rule count_below [OF srt k(2)])
    also have "\<dots> \<le> length (filter (\<lambda>x. x \<le> np_median xs) ?s)"
      using b(1) by (intro length_filter_mono) simp
    finally have lo: "?k \<le> length (filter (\<lambda>x. x \<le> np_median xs) xs)"
      using k(3) by (simp add: length_filter_sort)
    have "length ?s - ?k \<le> length (filter (\<lambda>x. ?s ! ?k \<le> x) ?s)"
      by (rule count_above [OF srt k(1)])
    also have "\<dots> \<le> length (filter (\<lambda>x. np_median xs \<le> x) ?s)"
      using b(2) by (intro length_filter_mono) simp
    finally have hi: "?n - ?k \<le> length (filter (\<lambda>x. np_median xs \<le> x) xs)"
      by (simp add: length_filter_sort)
    show ?thesis
      using lo hi k(4) by (simp add: is_median_def)
  qed
qed


lemma accepted_angles_filter:
  "accepted_angles ls =
     filter (\<lambda>a. \<bar>a\<bar> < 45) (map (\<lambda>(rho, theta). theta * 180 / pi - 90) ls)"
  by (induction ls rule: accepted_angles.induct) (simp_all add: Let_def)

lemma radians_minus: "radians (- a) = - radians a"
  by (simp add: radians_def)

lemma radians_diff: "radians (t - a) = radians t - radians a"
  by (simp add: radians_def diff_divide_distrib left_diff_distrib)

lemma radians_hough: "radians (theta * 180 / pi - 90) = theta - pi / 2"
  by (simp add: radians_def diff_divide_distrib left_diff_distrib)

lemma rotation_matrix_point:
  "warp_point (getRotationMatrix2D c a 1) p =
     rotate_about (real (fst c), real (snd c)) (- a) p"
  by (cases p) (simp add: getRotationMatrix2D_def rotate_about_def Let_def radians_minus
      algebra_simps)

lemma rotation_matrix_direction:
  "warp_direction (getRotationMatrix2D c a 1) (direction_of t) = direction_of (t - a)"
  by (simp add: getRotationMatrix2D_def direction_of_def Let_def radians_diff cos_diff sin_diff
      algebra_simps)

lemma hough_direction_inclination:
  "hough_direction (rho, theta) = direction_of (theta * 180 / pi - 90)"
  by (simp add: hough_direction_def direction_of_def radians_hough cos_diff sin_diff)

lemma rotation_levels_line:
  assumes "theta * 180 / pi - 90 = a"
  shows "warp_direction (getRotationMatrix2D c a 1) (hough_direction (rho, theta)) = (1, 0)"
proof -
  have "warp_direction (getRotationMatrix2D c a 1) (hough_direction (rho, theta)) =
        direction_of (a - a)"
    using assms by (simp only: hough_direction_inclination rotation_matrix_direction)
  then show ?thesis
    by (simp add: direction_of_def radians_def)
qed

text \<open>
  C4. When edge and line detection succeed: an angle is accepted exactly when its
  absolute value is below 45 degrees; with no lines, or no accepted angle, the image is
  returned as it is; otherwise, for an image of height \<open>h\<close> and width \<open>w\<close>, the
  result is \<open>warpAffine\<close>, with cubic interpolation and replicated borders, of the
  image by the matrix that \<open>getRotationMatrix2D\<close> gives for the median of the accepted
  angles. That matrix moves every point as the rotation about \<open>(w div 2, h div 2)\<close>
  by the negative of the median does: a direction of inclination \<open>t\<close> becomes one of
  inclination \<open>t\<close> minus the median, and a detected line whose angle is the median
  becomes horizontal.
\<close>

theorem deskew_image_rotates_by_negative_median:
  assumes "cv2_Canny cv img 50 150 3 = Inr edges"
    and "cv2_HoughLines cv edges 1 (pi / 180) 100 = Inr lines"
  shows "(lines = None \<longrightarrow> deskew_image cv img = Inr img) \<and>
         (\<forall>ls. lines = Some ls \<longrightarrow>
            accepted_angles ls =
              filter (\<lambda>a. \<bar>a\<bar> < 45) (map (\<lambda>(rho, theta). theta * 180 / pi - 90) ls) \<and>
            (accepted_angles ls = [] \<longrightarrow> deskew_image cv img = Inr img) \<and>
            (\<forall>h w. accepted_angles ls \<noteq> [] \<and> np_shape cv img = [h, w] \<longrightarrow>
               is_median (np_median (accepted_angles ls)) (accepted_angles ls) \<and>
               deskew_image cv img =
                 cv2_warpAffine cv img
                   (getRotationMatrix2D (w div 2, h div 2) (np_median (accepted_angles ls)) 1)
                   (w, h) INTER_CUBIC BORDER_REPLICATE \<and>
               (\<forall>p. warp_point
                      (getRotationMatrix2D (w div 2, h div 2)
                         (np_median (accepted_angles ls)) 1) p =
                    rotate_about (real (w div 2), real (h div 2))
                      (- np_median (accepted_angles ls)) p) \<and>
               (\<forall>t. warp_direction
                      (getRotationMatrix2D (w div 2, h div 2)
                         (np_median (accepted_angles ls)) 1) (direction_of t) =
                    direction_of (t - np_median (accepted_angles ls))) \<and>
               (\<forall>(rho, theta) \<in> set ls.
                  hough_direction (rho, theta) = direction_of (theta * 180 / pi - 90) \<and>
                  (theta * 180 / pi - 90 = np_median (accepted_angles ls) \<longrightarrow>
                   warp_direction
                     (getRotationMatrix2D (w div 2, h div 2)
                        (np_median (accepted_angles ls)) 1) (hough_direction (rho, theta)) =
                   (1, 0)))))"
proof -
  have none: "lines = None \<longrightarrow> deskew_image cv img = Inr img"
    using assms by (simp add: deskew_image_def)
  have some: "deskew_image cv img =
      (if accepted_angles ls \<noteq> [] then
         (case np_shape cv img of
            [h, w] \<Rightarrow> cv2_warpAffine cv img
               (getRotationMatrix2D (w div 2, h div 2) (np_median (accepted_angles ls)) 1)
               (w, h) INTER_CUBIC BORDER_REPLICATE
          | _ \<Rightarrow> Inl unpack_error)
       else Inr img)" if "lines = Some ls" for ls
    using assms that by (simp add: deskew_image_def Let_def split: list.splits)
  show ?thesis
  proof (intro conjI allI impI ballI)
    show "deskew_image cv img = Inr img" if "lines = None"
      using none that by simp
  next
    fix ls assume "lines = Some ls"
    show "accepted_angles ls =
        filter (\<lambda>a. \<bar>a\<bar> < 45) (map (\<lambda>(rho, theta). theta * 180 / pi - 90) ls)"
      by (rule accepted_angles_filter)
  next
    fix ls assume "lines = Some ls" "accepted_angles ls = []"
    then show "deskew_image cv img = Inr img"
      by (simp add: some)
  next
    fix ls h w assume "lines = Some ls" "accepted_angles ls \<noteq> [] \<and> np_shape cv img = [h, w]"
    then show "is_median (np_median (accepted_angles ls)) (accepted_angles ls)"
      by (simp add: np_median_is_median)
  next
    fix ls h w assume "lines = Some ls" "accepted_angles ls \<noteq> [] \<and> np_shape cv img = [h, w]"
    then show "deskew_image cv img =
        cv2_warpAffine cv img
          (getRotationMatrix2D (w div 2, h div 2) (np_median (accepted_angles ls)) 1)
          (w, h) INTER_CUBIC BORDER_REPLICATE"
      by (simp add: some)
  next
    fix ls h w p
    show "warp_point
            (getRotationMatrix2D (w div 2, h div 2) (np_median (accepted_angles ls)) 1) p =
          rotate_about (real (w div 2), real (h div 2)) (- np_median (accepted_angles ls)) p"
      using rotation_matrix_point [of "(w div 2, h div 2)"] by simp
  next
    fix ls h w t
    show "warp_direction
            (getRotationMatrix2D (w div 2, h div 2) (np_median (accepted_angles ls)) 1)
            (direction_of t) = direction_of (t - np_median (accepted_angles ls))"
      by (rule rotation_matrix_direction)
  next
    fix ls h w and x :: "real \<times> real"
    show "case x of (rho, theta) \<Rightarrow>
            hough_direction (rho, theta) = direction_of (theta * 180 / pi - 90) \<and>
            (theta * 180 / pi - 90 = np_median (accepted_angles ls) \<longrightarrow>
             warp_direction
               (getRotationMatrix2D (w div 2, h div 2) (np_median (accepted_angles ls)) 1)
               (hough_direction (rho, theta)) = (1, 0))"
    proof (cases x)
      case (Pair rho theta)
      have "hough_direction (rho, theta) = direction_of (theta * 180 / pi - 90)"
        by (rule hough_direction_inclination)
      moreover have "theta * 180 / pi - 90 = np_median (accepted_angles ls) \<longrightarrow>
             warp_direction
               (getRotationMatrix2D (w div 2, h div 2) (np_median (accepted_angles ls)) 1)
               (hough_direction (rho, theta)) = (1, 0)"
        using rotation_levels_line by blast
      ultimately show ?thesis
        unfolding Pair case_prod_conv by (rule conjI)
    qed
  qed
qed


lemma skewed_accepted: "accepted_angles skewed_lines = [10, 6, 8]"
  by (simp add: skewed_lines_def Let_def)

lemma skewed_median: "np_median [10, 6, 8] = 8"
  by (simp add: np_median_def Let_def)

theorem deskew_image_rotates_by_negative_median_witness:
  "deskew_image (sim_cv2 None False) (Pixels [4, 6]) = Inr (Pixels [4, 6]) \<and>
   deskew_image (sim_cv2 (Some [(0, 170 * pi / 180)]) False) (Pixels [4, 6]) =
     Inr (Pixels [4, 6]) \<and>
   is_median 8 [10, 6, 8] \<and>
   deskew_image (sim_cv2 (Some skewed_lines) False) (Pixels [4, 6]) =
     Inr (Warped (Pixels [4, 6]) (getRotationMatrix2D (3, 2) 8 1) (6, 4)
            INTER_CUBIC BORDER_REPLICATE) \<and>
   warp_point (getRotationMatrix2D (3, 2) 8 1) (5, 7) = rotate_about (3, 2) (- 8) (5, 7) \<and>
   warp_direction (getRotationMatrix2D (3, 2) 8 1) (hough_direction (2, 98 * pi / 180)) =
     (1, 0)"
proof -
  have c: "cv2_Canny (sim_cv2 l False) (Pixels [4, 6]) 50 150 3 = Inr (Pixels [4, 6])" for l
    by (simp add: sim_cv2_def)
  have h: "cv2_HoughLines (sim_cv2 l False) (Pixels [4, 6]) 1 (pi / 180) 100 = Inr l" for l
    by (simp add: sim_cv2_def)
  have a: "accepted_angles [(0, 170 * pi / 180)] = []"
    by (simp add: Let_def)
  have s: "np_shape (sim_cv2 l False) (Pixels [4, 6]) = [4, 6]" for l
    by (simp add: sim_cv2_def)
  have w: "cv2_warpAffine (sim_cv2 l False) x m sz i b = Inr (Warped x m sz i b)" for l x m sz i b
    by (simp add: sim_cv2_def)
  have m: "(2, 98 * pi / 180) \<in> set skewed_lines" "98 * pi / 180 * 180 / pi - 90 = (8::real)"
    by (simp_all add: skewed_lines_def)
  have t: "accepted_angles skewed_lines \<noteq> [] \<and>
           np_shape (sim_cv2 (Some skewed_lines) False) (Pixels [4, 6]) = [4, 6]"
    by (simp add: skewed_accepted s)
  note main = deskew_image_rotates_by_negative_median [OF c h, of "Some skewed_lines"]
  from main have 1: "is_median 8 [10, 6, 8]"
    and 2: "deskew_image (sim_cv2 (Some skewed_lines) False) (Pixels [4, 6]) =
     Inr (Warped (Pixels [4, 6]) (getRotationMatrix2D (3, 2) 8 1) (6, 4)
            INTER_CUBIC BORDER_REPLICATE)"
    and 3: "warp_point (getRotationMatrix2D (3, 2) 8 1) (5, 7) = rotate_about (3, 2) (- 8) (5, 7)"
    using t
    by (simp_all add: skewed_accepted skewed_median w s accepted_angles_filter [symmetric])
  from main t have "\<forall>(rho, theta) \<in> set skewed_lines.
      hough_direction (rho, theta) = direction_of (theta * 180 / pi - 90) \<and>
      (theta * 180 / pi - 90 = np_median (accepted_angles skewed_lines) \<longrightarrow>
       warp_direction
         (getRotationMatrix2D (6 div 2, 4 div 2) (np_median (accepted_angles skewed_lines)) 1)
         (hough_direction (rho, theta)) = (1, 0))"
    by blast
  note lv = bspec [OF this m(1), unfolded case_prod_conv, THEN conjunct2]
  have mm: "np_median (accepted_angles skewed_lines) = 8"
    by (simp add: skewed_accepted skewed_median)
  have "98 * pi / 180 * 180 / pi - 90 = np_median (accepted_angles skewed_lines)"
    by (simp only: m(2) mm)
  with lv have "warp_direction
         (getRotationMatrix2D (6 div 2, 4 div 2) (np_median (accepted_angles skewed_lines)) 1)
         (hough_direction (2, 98 * pi / 180)) = (1, 0)"
    by (rule mp)
  then have 4:
    "warp_direction (getRotationMatrix2D (3, 2) 8 1) (hough_direction (2, 98 * pi / 180)) = (1, 0)"
    by (simp add: mm)
  show ?thesis
    using deskew_image_rotates_by_negative_median [OF c h, of None]
      deskew_image_rotates_by_negative_median [OF c h, of "Some [(0, 170 * pi / 180)]"]
      1 2 3 4
    by (simp add: a accepted_angles_filter [symmetric])
qed

end
